theory Spec2Isabelle
  imports Main
begin

section \<open>JavaScript values as the master tests them\<close>

text \<open>
  The master is JavaScript. A field that may be absent is an \<open>option\<close> (\<open>None\<close> is
  \<open>undefined\<close>), and \<open>if (x)\<close> is the truthiness of \<open>x\<close>: an absent value, the empty string,
  the number 0 and NaN are falsy; every array and object is truthy.
  Error messages are kept without the double quotes and without the interpolated values of
  the source's \<open>format\<close> calls.
\<close>

datatype err =
    TypeError string
  | AssertionError string
  | Error string
  | RedisError string
  | LdapError string
  | InvalidArgumentError string
  | MissingParameterError string
  | InternalError string
  | GoneError string
  | ResourceNotFoundError string
  | MultiError "err list"

text \<open>What a function with a node-style callback does: it throws synchronously, or it calls
  \<open>callback(err)\<close>, or it calls \<open>callback(null, value)\<close>.\<close>

datatype 'a outcome = Throws err | CbErr err | CbOk 'a

fun truthyStr :: "string option \<Rightarrow> bool" where
  "truthyStr None = False"
| "truthyStr (Some s) = (s \<noteq> [])"

fun truthyNum :: "int option \<Rightarrow> bool" where
  "truthyNum None = False"
| "truthyNum (Some n) = (n \<noteq> 0)"

text \<open>\<open>String(x)\<close> as \<open>RegExp.test\<close> applies it to its argument: \<open>null\<close> becomes the
  four letters \<open>null\<close>.\<close>

datatype jsref = JNull | JUndefined | JString string

fun jsToString :: "jsref \<Rightarrow> string" where
  "jsToString JNull = ''null''"
| "jsToString JUndefined = ''undefined''"
| "jsToString (JString s) = s"

definition hexLower :: "char \<Rightarrow> bool" where
  "hexLower c = (c \<in> set ''0123456789abcdef'')"

text \<open>\<open>/^[0-9a-f]{8}-[0-9a-f]{4}-[0-9a-f]{4}-[0-9a-f]{4}-[0-9a-f]{12}$/\<close>\<close>

definition UUID_RE_test :: "string \<Rightarrow> bool" where
  "UUID_RE_test s =
     (length s = 36 \<and>
      list_all hexLower (take 8 s) \<and> s ! 8 = CHR ''-'' \<and>
      list_all hexLower (take 4 (drop 9 s)) \<and> s ! 13 = CHR ''-'' \<and>
      list_all hexLower (take 4 (drop 14 s)) \<and> s ! 18 = CHR ''-'' \<and>
      list_all hexLower (take 4 (drop 19 s)) \<and> s ! 23 = CHR ''-'' \<and>
      list_all hexLower (take 12 (drop 24 s)))"

definition isDigit :: "char \<Rightarrow> bool" where
  "isDigit c = (c \<in> set ''0123456789'')"

definition isLetter :: "char \<Rightarrow> bool" where
  "isLetter c = (c \<in> set ''abcdefghijklmnopqrstuvwxyzABCDEFGHIJKLMNOPQRSTUVWXYZ'')"

section \<open>Maintenance windows (master/lib/maintenances.js)\<close>

subsection \<open>Data\<close>

text \<open>\<open>start\<close> and \<open>end\<close> as the request body gives them: a JSON number or a string.
  Numbers are integers here (timestamps in milliseconds).\<close>

datatype timespec = TNum int | TStr string

fun truthyTime :: "timespec option \<Rightarrow> bool" where
  "truthyTime None = False"
| "truthyTime (Some (TNum n)) = (n \<noteq> 0)"
| "truthyTime (Some (TStr s)) = (s \<noteq> [])"

text \<open>The \<open>all\<close> field: a boolean in a request body, a string in a redis hash.\<close>

datatype jsall = JBool bool | JStr string

fun truthyAll :: "jsall option \<Rightarrow> bool" where
  "truthyAll None = False"
| "truthyAll (Some (JBool b)) = b"
| "truthyAll (Some (JStr s)) = (s \<noteq> [])"

text \<open>The options of \<open>createMaintenance\<close>. \<open>o_app\<close> says whether \<open>options.app\<close> is there.
  The three scope lists are arrays of strings (what \<open>assert.arrayOfString\<close> lets through).\<close>

record maint_options =
  o_app :: bool
  o_userUuid :: "string option"
  o_start :: "timespec option"
  o_end :: "timespec option"
  o_notes :: "string option"
  o_all :: "jsall option"
  o_probes :: "string list option"
  o_probeGroups :: "string list option"
  o_machines :: "string list option"

text \<open>The raw fields, as \<open>createMaintenance\<close> builds them and as a redis hash holds them.
  A number field is \<open>None\<close> when it is absent or NaN. A scope field \<open>Some xs\<close> stands for
  the JSON text of the array \<open>xs\<close> (a non-empty string, so truthy).\<close>

record maint_data =
  d_id :: "int option"
  d_user :: "string option"
  d_start :: "int option"
  d_end :: "int option"
  d_notes :: "string option"
  d_all :: "jsall option"
  d_probes :: "string list option"
  d_probeGroups :: "string list option"
  d_machines :: "string list option"

text \<open>A \<open>Maintenance\<close> instance. Its \<open>_key\<close> is the pair of \<open>m_user\<close> and \<open>m_id\<close>.\<close>

record maintenance =
  m_v :: int
  m_user :: string
  m_id :: int
  m_start :: int
  m_end :: int
  m_notes :: "string option"
  m_all :: bool
  m_probes :: "string list option"
  m_probeGroups :: "string list option"
  m_machines :: "string list option"

definition MAINTENANCE_MODEL_VERSION :: int where
  "MAINTENANCE_MODEL_VERSION = 1"

definition MAX_NOTES_LENGTH :: nat where
  "MAX_NOTES_LENGTH = 255"

subsection \<open>Dates\<close>

text \<open>What the code reads from its surroundings: \<open>Date.now()\<close>, the host's parser of date
  strings (\<open>new Date(string)\<close>, \<open>None\<close> for an invalid date), the hook
  \<open>app.handleMaintenanceEnd\<close> and the check \<open>app.assertRedisObject\<close>; the last two are
  methods of the app that the maintenance module calls and does not define.\<close>

record env =
  env_now :: int
  env_dateParse :: "string \<Rightarrow> int option"
  env_handleMaintenanceEnd :: "maintenance \<Rightarrow> err option"
  env_assertRedisObject :: "maint_data option \<Rightarrow> err option"

text \<open>\<open>new Date(t).getTime()\<close> for a number: NaN beyond 8.64e15 milliseconds.\<close>

definition timeClip :: "int \<Rightarrow> int option" where
  "timeClip t = (if abs t \<le> 8640000000000000 then Some t else None)"

fun newDate :: "env \<Rightarrow> timespec \<Rightarrow> int option" where
  "newDate E (TNum n) = timeClip n"
| "newDate E (TStr s) = env_dateParse E s"

definition dateFromStart :: "env \<Rightarrow> timespec \<Rightarrow> err + int option" where
  "dateFromStart E start =
     (if start = TStr ''now'' then Inr (Some (env_now E))
      else (case newDate E start of
              None \<Rightarrow> Inl (TypeError ''invalid start'')
            | Some t \<Rightarrow> Inr (Some t)))"

definition digitVal :: "char \<Rightarrow> nat" where
  "digitVal c = of_char c - 48"

definition numberOfDigits :: "string \<Rightarrow> nat" where
  "numberOfDigits ds = foldl (\<lambda>a c. 10 * a + digitVal c) 0 ds"

text \<open>\<open>/^([1-9]\d*)([mhd])$/.exec(end)\<close>: the number and the unit. A number passed as
  \<open>end\<close> is matched as its decimal text, which has no unit, so it never matches.\<close>

fun endPattern_exec :: "timespec \<Rightarrow> (nat \<times> char) option" where
  "endPattern_exec (TNum n) = None"
| "endPattern_exec (TStr s) =
     (if 2 \<le> length s \<and> last s \<in> set ''mhd'' \<and> hd s \<in> set ''123456789''
         \<and> list_all isDigit (butlast s)
      then Some (numberOfDigits (butlast s), last s) else None)"

text \<open>The multiplication is exact here; the source's is in floating point.\<close>

definition dateFromEnd :: "env \<Rightarrow> timespec \<Rightarrow> err + int option" where
  "dateFromEnd E end' =
     (case endPattern_exec end' of
        Some (num, unit) \<Rightarrow>
          (let t = env_now E;
               t' = (if unit = CHR ''m'' then t + int num * 60 * 1000
                     else if unit = CHR ''h'' then t + int num * 60 * 60 * 1000
                     else if unit = CHR ''d'' then t + int num * 24 * 60 * 60 * 1000
                     else t)
           in Inr (timeClip t'))
      | None \<Rightarrow>
          (case newDate E end' of
             None \<Rightarrow> Inl (TypeError ''invalid end'')
           | Some t \<Rightarrow> Inr (Some t)))"

definition isPositiveInteger :: "int option \<Rightarrow> bool" where
  "isPositiveInteger s = (case s of None \<Rightarrow> False | Some n \<Rightarrow> 0 < n)"

subsection \<open>The constructor\<close>

text \<open>\<open>boolFromString\<close> of amon-common's utils (kept in the repository as
  \<open>boolFromRedisString\<close>): the default for an absent value, the two redis strings, a
  boolean as it is, and a TypeError for anything else.\<close>

fun boolFromString :: "jsall option \<Rightarrow> bool \<Rightarrow> err + bool" where
  "boolFromString None default' = Inr default'"
| "boolFromString (Some (JStr s)) default' =
     (if s = ''false'' then Inr False
      else if s = ''true'' then Inr True
      else Inl (TypeError ''invalid value for data.all''))"
| "boolFromString (Some (JBool b)) default' = Inr b"

definition numScopes :: "jsall option \<Rightarrow> string list option \<Rightarrow> string list option
    \<Rightarrow> string list option \<Rightarrow> nat" where
  "numScopes all' probes probeGroups machines =
     (if truthyAll all' then 1 else 0) + (if probes = None then 0 else 1)
     + (if probeGroups = None then 0 else 1) + (if machines = None then 0 else 1)"

text \<open>\<open>new Maintenance(data, log)\<close>; \<open>None\<close> is a \<open>data\<close> that is null (the reply of
  \<open>hgetall\<close> for a key that is not there). \<open>Inl\<close> is the TypeError thrown. The logger is
  always there and is left out.\<close>

definition Maintenance :: "maint_data option \<Rightarrow> err + maintenance" where
  "Maintenance data' =
     (case data' of
        None \<Rightarrow> Inl (TypeError ''data (object) is required'')
      | Some data \<Rightarrow>
          if \<not> (truthyNum (d_id data) \<and> isPositiveInteger (d_id data))
          then Inl (TypeError ''data.id (integer) is required'')
          else if \<not> (truthyStr (d_user data) \<and> UUID_RE_test (the (d_user data)))
          then Inl (TypeError ''data.user (UUID) is required'')
          else if \<not> (truthyNum (d_start data) \<and> isPositiveInteger (d_start data))
          then Inl (TypeError ''data.start (timestamp) is required'')
          else if \<not> (truthyNum (d_end data) \<and> isPositiveInteger (d_end data))
          then Inl (TypeError ''data.end (timestamp) is required'')
          else if numScopes (d_all data) (d_probes data) (d_probeGroups data) (d_machines data) \<noteq> 1
          then Inl (TypeError ''exactly one of data.all, data.probes, data.probeGroups or data.machines must be specified'')
          else (case boolFromString (d_all data) False of
                  Inl e \<Rightarrow> Inl e
                | Inr a \<Rightarrow>
                    Inr \<lparr> m_v = MAINTENANCE_MODEL_VERSION,
                          m_user = the (d_user data),
                          m_id = the (d_id data),
                          m_start = the (d_start data),
                          m_end = the (d_end data),
                          m_notes = d_notes data,
                          m_all = a,
                          m_probes = d_probes data,
                          m_probeGroups = d_probeGroups data,
                          m_machines = d_machines data \<rparr>))"

text \<open>\<open>serializePublic\<close> and \<open>serializeDb\<close>. The second turns the three arrays into
  their JSON text (which \<open>Some xs\<close> stands for already) and adds the model version \<open>v\<close>,
  a field the constructor never reads and \<open>maint_data\<close> does not keep.\<close>

definition serializePublic :: "maintenance \<Rightarrow> maint_data" where
  "serializePublic m =
     \<lparr> d_id = Some (m_id m), d_user = Some (m_user m),
       d_start = Some (m_start m), d_end = Some (m_end m),
       d_notes = (if truthyStr (m_notes m) then m_notes m else None),
       d_all = (if m_all m then Some (JBool True) else None),
       d_probes = m_probes m, d_probeGroups = m_probeGroups m,
       d_machines = m_machines m \<rparr>"

definition serializeDb :: "maintenance \<Rightarrow> maint_data" where
  "serializeDb m = serializePublic m"

subsection \<open>The store\<close>

text \<open>
  Redis db 1, as the module lays it out: the hash \<open>maintenanceIds\<close> (a counter per user),
  the sets \<open>maintenances:$user\<close> (a list without duplicates; its order is the order
  \<open>smembers\<close> replies in), the hashes \<open>maintenance:$user:$id\<close> (keyed by the pair) and
  the sorted set \<open>maintenancesByEnd\<close> (key and score). \<open>r_down\<close> is the connection
  error, if redis cannot be reached; it is the same throughout one handler.
  The reaper's timer (\<open>scheduleNextMaintenanceExpiry\<close>) is not part of the state.
\<close>

record redis =
  r_down :: "err option"
  maintenanceIds :: "string \<rightharpoonup> int"
  maintenancesOf :: "string \<Rightarrow> int list"
  maintenanceHash :: "string \<times> int \<rightharpoonup> maint_data"
  maintenancesByEnd :: "((string \<times> int) \<times> int) list"

definition hincrby_maintenanceIds :: "string \<Rightarrow> redis \<Rightarrow> int \<times> redis" where
  "hincrby_maintenanceIds user st =
     (let n = (case maintenanceIds st user of None \<Rightarrow> 0 | Some c \<Rightarrow> c) + 1
      in (n, st\<lparr>maintenanceIds := (maintenanceIds st)(user \<mapsto> n)\<rparr>))"

definition sadd :: "string \<Rightarrow> int \<Rightarrow> redis \<Rightarrow> redis" where
  "sadd user i st =
     st\<lparr>maintenancesOf := (maintenancesOf st)
           (user := (if i \<in> set (maintenancesOf st user) then maintenancesOf st user
                     else maintenancesOf st user @ [i]))\<rparr>"

definition srem :: "string \<Rightarrow> int \<Rightarrow> redis \<Rightarrow> redis" where
  "srem user i st =
     st\<lparr>maintenancesOf := (maintenancesOf st)(user := removeAll i (maintenancesOf st user))\<rparr>"

definition zadd :: "int \<Rightarrow> string \<times> int \<Rightarrow> redis \<Rightarrow> redis" where
  "zadd score k st =
     st\<lparr>maintenancesByEnd := filter (\<lambda>e. fst e \<noteq> k) (maintenancesByEnd st) @ [(k, score)]\<rparr>"

definition zrem :: "string \<times> int \<Rightarrow> redis \<Rightarrow> redis" where
  "zrem k st = st\<lparr>maintenancesByEnd := filter (\<lambda>e. fst e \<noteq> k) (maintenancesByEnd st)\<rparr>"

text \<open>Redis keeps every field as a string: a boolean becomes \<open>true\<close> or \<open>false\<close>.\<close>

fun redisString :: "jsall \<Rightarrow> jsall" where
  "redisString (JBool b) = JStr (if b then ''true'' else ''false'')"
| "redisString (JStr s) = JStr s"

definition hmset :: "string \<times> int \<Rightarrow> maint_data \<Rightarrow> redis \<Rightarrow> redis" where
  "hmset k d st =
     st\<lparr>maintenanceHash := (maintenanceHash st)(k \<mapsto> d\<lparr>d_all := map_option redisString (d_all d)\<rparr>)\<rparr>"

definition del :: "string \<times> int \<Rightarrow> redis \<Rightarrow> redis" where
  "del k st = st\<lparr>maintenanceHash := (maintenanceHash st)(k := None)\<rparr>"

text \<open>\<open>Number(currId) || 0\<close> of the reply of \<open>hget maintenanceIds user\<close>.\<close>

definition currId :: "redis \<Rightarrow> string \<Rightarrow> int" where
  "currId st user = (case maintenanceIds st user of None \<Rightarrow> 0 | Some c \<Rightarrow> c)"

subsection \<open>createMaintenance\<close>

text \<open>The data that \<open>createMaintenance\<close> hands to the constructor, once the id is known.\<close>

definition createData :: "maint_options \<Rightarrow> int option \<Rightarrow> int option \<Rightarrow> int \<Rightarrow> maint_data" where
  "createData options start end' i =
     \<lparr> d_id = Some i, d_user = o_userUuid options, d_start = start, d_end = end',
       d_notes = o_notes options, d_all = o_all options,
       d_probes = o_probes options, d_probeGroups = o_probeGroups options,
       d_machines = o_machines options \<rparr>"

text \<open>The checks of the options, in the source's order: the TypeError they call back with,
  if any.\<close>

definition checkOptions :: "maint_options \<Rightarrow> err option" where
  "checkOptions options =
     (if \<not> o_app options then Some (TypeError ''options.app is required'')
      else if \<not> (truthyStr (o_userUuid options) \<and> UUID_RE_test (the (o_userUuid options)))
      then Some (TypeError ''options.userUuid (UUID) is required'')
      else if \<not> truthyTime (o_start options) then Some (TypeError ''options.start is required'')
      else if \<not> truthyTime (o_end options) then Some (TypeError ''options.end is required'')
      else if truthyStr (o_notes options) \<and> length (the (o_notes options)) > MAX_NOTES_LENGTH
      then Some (TypeError ''options.notes max length is 255'')
      else if numScopes (o_all options) (o_probes options) (o_probeGroups options)
                (o_machines options) \<noteq> 1
      then Some (TypeError ''exactly one of options.all, options.probes, options.probeGroups or options.machines must be specified'')
      else None)"

definition createMaintenance :: "env \<Rightarrow> maint_options \<Rightarrow> redis \<Rightarrow> maintenance outcome \<times> redis" where
  "createMaintenance E options st =
     (case checkOptions options of
        Some e \<Rightarrow> (CbErr e, st)
      | None \<Rightarrow>
         (case dateFromStart E (the (o_start options)) of
            Inl e \<Rightarrow> (Throws e, st)
          | Inr start \<Rightarrow>
             (case dateFromEnd E (the (o_end options)) of
                Inl e \<Rightarrow> (Throws e, st)
              | Inr end' \<Rightarrow>
                 (case r_down st of
                    Some cerr \<Rightarrow> (CbErr cerr, st)
                  | None \<Rightarrow>
                     (let (i, st1) = hincrby_maintenanceIds (the (o_userUuid options)) st
                      in (case Maintenance (Some (createData options start end' i)) of
                            Inl invalidErr \<Rightarrow> (CbErr invalidErr, st1)
                          | Inr m \<Rightarrow>
                              (CbOk m,
                               hmset (m_user m, m_id m) (serializeDb m)
                                 (zadd (m_end m) (m_user m, m_id m)
                                    (sadd (the (o_userUuid options)) (m_id m) st1)))))))))"

subsection \<open>deleteMaintenance, Maintenance.get, listMaintenances\<close>

text \<open>\<open>deleteMaintenance\<close> takes a Maintenance or a fake one (user, id and key only).\<close>

datatype maint_ref = RealMaint maintenance | FakeMaint string int

fun ref_user :: "maint_ref \<Rightarrow> string" where
  "ref_user (RealMaint m) = m_user m"
| "ref_user (FakeMaint u i) = u"

fun ref_id :: "maint_ref \<Rightarrow> int" where
  "ref_id (RealMaint m) = m_id m"
| "ref_id (FakeMaint u i) = i"

text \<open>The result is the error the callback gets, if any. The hook \<open>handleMaintenanceEnd\<close>
  is taken not to write to the store.\<close>

definition deleteMaintenance :: "env \<Rightarrow> maint_ref \<Rightarrow> redis \<Rightarrow> err option \<times> redis" where
  "deleteMaintenance E maint st =
     (case r_down st of
        Some cerr \<Rightarrow> (Some cerr, st)
      | None \<Rightarrow>
          (let st' = del (ref_user maint, ref_id maint)
                       (zrem (ref_user maint, ref_id maint)
                          (srem (ref_user maint) (ref_id maint) st))
           in (case maint of
                 RealMaint m \<Rightarrow>
                   (if m_end m \<noteq> 0 then (env_handleMaintenanceEnd E m, st') else (None, st'))
               | FakeMaint u i \<Rightarrow> (None, st'))))"

text \<open>The id that \<open>Maintenance.get\<close> is called with: a number (from the route) or the
  decimal text of one (a member of the set, a piece of a key). Only the number 0 is falsy.\<close>

datatype idarg = IdNum int | IdStr int

fun idOf :: "idarg \<Rightarrow> int" where
  "idOf (IdNum i) = i"
| "idOf (IdStr i) = i"

fun truthyId :: "idarg \<Rightarrow> bool" where
  "truthyId (IdNum i) = (i \<noteq> 0)"
| "truthyId (IdStr i) = True"

text \<open>\<open>Maintenance.get\<close>: \<open>CbOk None\<close> is the callback with neither an error nor a
  maintenance. When \<open>assertRedisObject\<close> objects, the code calls back with \<open>err\<close>, which is
  null there.\<close>

definition Maintenance_get :: "env \<Rightarrow> string \<Rightarrow> idarg \<Rightarrow> redis
    \<Rightarrow> maintenance option outcome \<times> redis" where
  "Maintenance_get E userUuid i st =
     (if userUuid = [] then (Throws (TypeError ''userUuid (UUID) is required''), st)
      else if \<not> truthyId i then (Throws (TypeError ''id (Integer) is required''), st)
      else (case r_down st of
              Some cerr \<Rightarrow> (CbErr cerr, st)
            | None \<Rightarrow>
                (let data = maintenanceHash st (userUuid, idOf i)
                 in (case env_assertRedisObject E data of
                       Some rErr \<Rightarrow> (CbOk None, st)
                     | None \<Rightarrow>
                         (case Maintenance data of
                            Inr m \<Rightarrow> (CbOk (Some m), st)
                          | Inl invalidErr \<Rightarrow>
                              (case deleteMaintenance E (FakeMaint userUuid (idOf i)) st of
                                 (Some delErr, st') \<Rightarrow> (CbErr delErr, st')
                               | (None, st') \<Rightarrow> (CbOk None, st')))))))"

text \<open>\<open>async.map(maintenanceIds, maintenanceFromId, ...)\<close>: every id is looked up (here
  one after the other, in the order of the list); the first error wins, otherwise the
  results come in the order of the ids.\<close>

fun mapGet :: "env \<Rightarrow> string \<Rightarrow> int list \<Rightarrow> redis \<Rightarrow> maintenance option list outcome \<times> redis" where
  "mapGet E userUuid [] st = (CbOk [], st)"
| "mapGet E userUuid (i # ids) st =
     (case Maintenance_get E userUuid (IdStr i) st of
        (Throws e, st1) \<Rightarrow> (Throws e, st1)
      | (CbErr e, st1) \<Rightarrow> (CbErr e, snd (mapGet E userUuid ids st1))
      | (CbOk r, st1) \<Rightarrow>
          (case mapGet E userUuid ids st1 of
             (CbOk rs, st2) \<Rightarrow> (CbOk (r # rs), st2)
           | (other, st2) \<Rightarrow> (other, st2)))"

definition filterMaints :: "maintenance option list \<Rightarrow> maintenance list" where
  "filterMaints ms = List.map_filter (\<lambda>a. a) ms"

definition listMaintenances :: "env \<Rightarrow> string option \<Rightarrow> redis \<Rightarrow> maintenance list outcome \<times> redis" where
  "listMaintenances E userUuid st =
     (if \<not> truthyStr userUuid then (Throws (TypeError ''userUuid is required''), st)
      else (case r_down st of
              Some cerr \<Rightarrow> (CbErr cerr, st)
            | None \<Rightarrow>
                (case mapGet E (the userUuid) (maintenancesOf st (the userUuid)) st of
                   (CbOk ms, st') \<Rightarrow> (CbOk (filterMaints ms), st')
                 | (CbErr e, st') \<Rightarrow> (CbErr e, st')
                 | (Throws e, st') \<Rightarrow> (Throws e, st'))))"

subsection \<open>The endpoints under /pub/:user/maintenances\<close>

text \<open>What a handler does with a request: it sends a response, it passes an error to
  \<open>next\<close> (restify answers with that error), it lets an exception escape, or it calls
  \<open>next()\<close> for the following handler of the route, here with \<open>req._maintenance\<close> set.\<close>

datatype reply = Send nat "maint_data option" | NextErr err | Uncaught err

datatype step = Reply reply | Next maintenance

definition apiCreateMaintenanceWindow :: "env \<Rightarrow> maint_options \<Rightarrow> string \<Rightarrow> redis \<Rightarrow> reply \<times> redis" where
  "apiCreateMaintenanceWindow E body userUuid st =
     (case createMaintenance E (body\<lparr>o_userUuid := Some userUuid, o_app := True\<rparr>) st of
        (CbErr (TypeError msg), st') \<Rightarrow> (NextErr (InvalidArgumentError (''TypeError: '' @ msg)), st')
      | (CbErr createErr, st') \<Rightarrow> (NextErr createErr, st')
      | (Throws e, st') \<Rightarrow> (Uncaught e, st')
      | (CbOk m, st') \<Rightarrow> (Send 200 (Some (serializePublic m)), st'))"

text \<open>\<open>reqGetMaintenanceWindow\<close>. The route parameter is the number \<open>Number\<close> makes of it:
  \<open>None\<close> for NaN (and for a number that is not an integer, which is refused alike).\<close>

definition reqGetMaintenanceWindow :: "env \<Rightarrow> string \<Rightarrow> int option \<Rightarrow> redis \<Rightarrow> step \<times> redis" where
  "reqGetMaintenanceWindow E userUuid i st =
     (if \<not> isPositiveInteger i
      then (Reply (NextErr (InvalidArgumentError ''invalid maintenance id (must be an integer greater than 0)'')), st)
      else (case Maintenance_get E userUuid (IdNum (the i)) st of
              (Throws e, st') \<Rightarrow> (Reply (Uncaught e), st')
            | (CbErr getErr, st') \<Rightarrow>
                (Reply (NextErr (InternalError ''error getting maintenance window data'')), st')
            | (CbOk (Some m), st') \<Rightarrow> (Next m, st')
            | (CbOk None, st') \<Rightarrow>
                (case r_down st' of
                   Some cerr \<Rightarrow> (Reply (NextErr cerr), st')
                 | None \<Rightarrow>
                     (if the i \<le> currId st' userUuid
                      then (Reply (NextErr (GoneError ''maint window was previously deleted'')), st')
                      else (Reply (NextErr (ResourceNotFoundError ''maint window not found'')), st')))))"

definition apiGetMaintenanceWindow :: "maintenance \<Rightarrow> redis \<Rightarrow> reply \<times> redis" where
  "apiGetMaintenanceWindow m st = (Send 200 (Some (serializePublic m)), st)"

definition apiDeleteMaintenanceWindow :: "env \<Rightarrow> maintenance \<Rightarrow> redis \<Rightarrow> reply \<times> redis" where
  "apiDeleteMaintenanceWindow E m st =
     (case deleteMaintenance E (RealMaint m) st of
        (Some e, st') \<Rightarrow> (NextErr (InternalError ''error deleting maintenance window''), st')
      | (None, st') \<Rightarrow> (Send 204 None, st'))"

text \<open>The two routes of \<open>mountApi\<close> on \<open>/pub/:user/maintenances/:maintenance\<close>: the handler
  \<open>reqGetMaintenanceWindow\<close>, then the endpoint.\<close>

definition GetMaintenanceWindow :: "env \<Rightarrow> string \<Rightarrow> int option \<Rightarrow> redis \<Rightarrow> reply \<times> redis" where
  "GetMaintenanceWindow E userUuid i st =
     (case reqGetMaintenanceWindow E userUuid i st of
        (Reply r, st') \<Rightarrow> (r, st')
      | (Next m, st') \<Rightarrow> apiGetMaintenanceWindow m st')"

definition DeleteMaintenanceWindow :: "env \<Rightarrow> string \<Rightarrow> int option \<Rightarrow> redis \<Rightarrow> reply \<times> redis" where
  "DeleteMaintenanceWindow E userUuid i st =
     (case reqGetMaintenanceWindow E userUuid i st of
        (Reply r, st') \<Rightarrow> (r, st')
      | (Next m, st') \<Rightarrow> apiDeleteMaintenanceWindow E m st')"

subsection \<open>isEventInMaintenance\<close>

text \<open>An event, as the body of a request gives it; nothing validates it. The maintenance
  module reads \<open>user\<close>, \<open>time\<close>, \<open>probeUuid\<close> and \<open>machine\<close>; the app's \<open>processEvent\<close>
  reads \<open>probe\<close> (the owner, the monitor's name and the probe's name) and \<open>data\<close> (kept as
  its JSON text). Each of them may be absent. \<open>time\<close> is \<open>None\<close> when it is absent or not a
  number.\<close>

record probe_ref =
  pr_user :: string
  pr_monitor :: string
  pr_name :: string

record event =
  ev_user :: "string option"
  ev_time :: "int option"
  ev_probeUuid :: "string option"
  ev_machine :: "string option"
  ev_probe :: "probe_ref option"
  ev_data :: string

text \<open>The operator \<open><=\<close> on two values read as numbers: with \<open>undefined\<close> or NaN on either
  side (\<open>None\<close>) the comparison is false.\<close>

fun jsLeq :: "int option \<Rightarrow> int option \<Rightarrow> bool" where
  "jsLeq (Some a) (Some b) = (a \<le> b)"
| "jsLeq a b = False"

text \<open>The loop over the user's maintenance windows. A window is passed over when
  \<open>etime <= m.start || m.end <= etime\<close>. A scope of the window is consulted only when the
  event's value for it is truthy.\<close>

fun considerMaints :: "int option \<Rightarrow> string option \<Rightarrow> string option \<Rightarrow> string option
    \<Rightarrow> maintenance list \<Rightarrow> maintenance option" where
  "considerMaints etime eprobe eprobeGroup emachine [] = None"
| "considerMaints etime eprobe eprobeGroup emachine (m # ms) =
     (if jsLeq etime (Some (m_start m)) \<or> jsLeq (Some (m_end m)) etime
      then considerMaints etime eprobe eprobeGroup emachine ms
      else if m_all m then Some m
      else if m_probeGroups m \<noteq> None \<and> truthyStr eprobeGroup
      then (if the eprobeGroup \<in> set (the (m_probeGroups m)) then Some m
            else considerMaints etime eprobe eprobeGroup emachine ms)
      else if m_probes m \<noteq> None \<and> truthyStr eprobe
      then (if the eprobe \<in> set (the (m_probes m)) then Some m
            else considerMaints etime eprobe eprobeGroup emachine ms)
      else if m_machines m \<noteq> None \<and> truthyStr emachine
      then (if the emachine \<in> set (the (m_machines m)) then Some m
            else considerMaints etime eprobe eprobeGroup emachine ms)
      else considerMaints etime eprobe eprobeGroup emachine ms)"

text \<open>\<open>probeGroup\<close> is the uuid of \<open>options.probeGroup\<close>, when the caller passes a group.\<close>

definition isEventInMaintenance :: "env \<Rightarrow> event \<Rightarrow> string option \<Rightarrow> redis
    \<Rightarrow> maintenance option outcome \<times> redis" where
  "isEventInMaintenance E event probeGroup st =
     (case listMaintenances E (ev_user event) st of
        (Throws e, st') \<Rightarrow> (Throws e, st')
      | (CbErr listErr, st') \<Rightarrow> (CbErr listErr, st')
      | (CbOk maintenances, st') \<Rightarrow>
          (CbOk (considerMaints (ev_time event) (ev_probeUuid event) probeGroup
                   (ev_machine event) maintenances), st'))"

section \<open>The events endpoint (master/lib/events.js)\<close>

text \<open>What a call of a function that answers through a callback does: it throws before it
  returns, or it calls its callback, once, with an error or none.\<close>

datatype 'e called = Threw err | Called "'e option"

text \<open>How a run over a list ends: it gets through the list, or an exception escapes from
  it, with the state as it was left.\<close>

datatype 's run = Finished 's | Escaped err 's

text \<open>
  \<open>asyncForEach(list, fn, cb)\<close>. \<open>fn\<close> is given an item and the state and leaves a new state.
  \<open>c\<close> counts the items still to finish and \<open>errState\<close> keeps the first error. The items
  are taken in the order of the list, by \<open>list.forEach\<close>; nothing catches what \<open>fn\<close> throws,
  so an exception ends the loop and leaves \<open>asyncForEach\<close>.
\<close>

fun asyncForEach_items :: "('a \<Rightarrow> 's \<Rightarrow> 'e called \<times> 's) \<Rightarrow> ('e option \<Rightarrow> 's \<Rightarrow> 's)
    \<Rightarrow> 'a list \<Rightarrow> int \<Rightarrow> 'e option \<Rightarrow> 's \<Rightarrow> 's run" where
  "asyncForEach_items fn cb [] c errState s = Finished s"
| "asyncForEach_items fn cb (item # rest) c errState s =
     (case fn item s of
        (Threw ex, s1) \<Rightarrow> Escaped ex s1
      | (Called er, s1) \<Rightarrow>
          (if errState \<noteq> None then asyncForEach_items fn cb rest c errState s1
           else (case er of
                   Some e \<Rightarrow> asyncForEach_items fn cb rest c (Some e) (cb (Some e) s1)
                 | None \<Rightarrow>
                     (if c - 1 = 0 then asyncForEach_items fn cb rest (c - 1) errState (cb None s1)
                      else asyncForEach_items fn cb rest (c - 1) errState s1))))"

definition asyncForEach :: "'a list \<Rightarrow> ('a \<Rightarrow> 's \<Rightarrow> 'e called \<times> 's) \<Rightarrow> ('e option \<Rightarrow> 's \<Rightarrow> 's)
    \<Rightarrow> 's \<Rightarrow> 's run" where
  "asyncForEach list fn cb s =
     asyncForEach_items fn cb list (int (length list)) None (if list = [] then cb None s else s)"

text \<open>The body of \<open>POST /events\<close>: one event or an array of events.\<close>

datatype 'ev body = Single 'ev | Array "'ev list"

text \<open>What \<open>addEvents\<close> keeps while it runs: the collected errors \<open>errs\<close>, what it has
  answered so far (\<open>res.send(202)\<close> or \<open>next(err)\<close>), and the state of the app that
  \<open>processEvent\<close> works on.\<close>

record 's addEvents_state =
  ae_errs :: "err list"
  ae_replies :: "reply list"
  ae_app :: 's

text \<open>\<open>req._app.processEvent\<close> is a parameter: given an event and the app's state it
  throws, or it calls back with an error or none. \<open>validateAndProcess\<close> has no
  \<open>try\<close>: what \<open>processEvent\<close> throws, it throws.\<close>

definition validateAndProcess :: "('ev \<Rightarrow> 's \<Rightarrow> err called \<times> 's) \<Rightarrow> 'ev \<Rightarrow> 's addEvents_state
    \<Rightarrow> err called \<times> 's addEvents_state" where
  "validateAndProcess processEvent event s =
     (case processEvent event (ae_app s) of
        (Threw ex, a) \<Rightarrow> (Threw ex, s\<lparr>ae_app := a\<rparr>)
      | (Called (Some e), a) \<Rightarrow> (Called None, s\<lparr>ae_errs := ae_errs s @ [e], ae_app := a\<rparr>)
      | (Called None, a) \<Rightarrow> (Called None, s\<lparr>ae_app := a\<rparr>))"

definition addEvents_done :: "err option \<Rightarrow> 's addEvents_state \<Rightarrow> 's addEvents_state" where
  "addEvents_done e s =
     (if length (ae_errs s) > 0
      then (if length (ae_errs s) = 1
            then s\<lparr>ae_replies := ae_replies s @ [NextErr (ae_errs s ! 0)]\<rparr>
            else s\<lparr>ae_replies := ae_replies s @ [NextErr (MultiError (ae_errs s))]\<rparr>)
      else s\<lparr>ae_replies := ae_replies s @ [Send 202 None]\<rparr>)"

text \<open>\<open>addEvents\<close>: what the handler has answered and the app's state. An exception that
  escapes the handler is the reply \<open>Uncaught\<close>; the handler itself has then answered
  nothing.\<close>

definition addEvents :: "('ev \<Rightarrow> 's \<Rightarrow> err called \<times> 's) \<Rightarrow> 'ev body \<Rightarrow> 's \<Rightarrow> reply list \<times> 's" where
  "addEvents processEvent body a =
     (let events = (case body of Array es \<Rightarrow> es | Single e \<Rightarrow> [e])
      in (case asyncForEach events (validateAndProcess processEvent) addEvents_done
                 \<lparr>ae_errs = [], ae_replies = [], ae_app = a\<rparr> of
            Finished s \<Rightarrow> (ae_replies s, ae_app s)
          | Escaped ex s \<Rightarrow> (ae_replies s @ [Uncaught ex], ae_app s)))"

section \<open>The app: users and event processing\<close>

subsection \<open>userFromId\<close>

definition loginChar :: "char \<Rightarrow> bool" where
  "loginChar c = (isLetter c \<or> isDigit c \<or> c \<in> set ''_.@'')"

text \<open>\<open>/^[a-zA-Z][a-zA-Z0-9_\.@]+$/\<close>\<close>

definition VALID_LOGIN_CHARS_test :: "string \<Rightarrow> bool" where
  "VALID_LOGIN_CHARS_test s =
     (case s of [] \<Rightarrow> False | c # cs \<Rightarrow> isLetter c \<and> cs \<noteq> [] \<and> list_all loginChar cs)"

record user =
  u_uuid :: string
  u_login :: string

text \<open>What \<open>ufds.search\<close> does with a filter: the search fails, its result emits an error,
  or it ends with a status after emitting the entries.\<close>

datatype search_result = SearchError err | ResultError err | ResultEnd nat "user list"

record cached =
  c_err :: "err option"
  c_user :: "user option"

text \<open>The user cache as a map (a lookup that expired or was evicted is a miss), and the
  filters of the searches sent to the directory so far.\<close>

record ustate =
  userCache :: "string \<rightharpoonup> cached"
  searches :: "string list"

definition cacheAndCallback :: "string \<Rightarrow> err option \<Rightarrow> user option \<Rightarrow> ustate
    \<Rightarrow> user option outcome \<times> ustate" where
  "cacheAndCallback userId e u st =
     (let obj = \<lparr>c_err = e, c_user = u\<rparr>;
          st' = (case u of
                   Some usr \<Rightarrow> st\<lparr>userCache := (userCache st)(u_uuid usr \<mapsto> obj, u_login usr \<mapsto> obj)\<rparr>
                 | None \<Rightarrow> st\<lparr>userCache := (userCache st)(userId \<mapsto> obj)\<rparr>)
      in (case e of Some er \<Rightarrow> (CbErr er, st') | None \<Rightarrow> (CbOk u, st')))"

text \<open>The search and what follows it, for the uuid or the login that was recognised.\<close>

definition searchUser :: "(string \<Rightarrow> search_result) \<Rightarrow> string \<Rightarrow> string option \<Rightarrow> jsref
    \<Rightarrow> ustate \<Rightarrow> user option outcome \<times> ustate" where
  "searchUser ufds_search userId uuid login st =
     (let flt = (case uuid of
                   Some u \<Rightarrow> ''(&(uuid='' @ u @ '')(objectclass=sdcperson))''
                 | None \<Rightarrow> ''(&(login='' @ jsToString login @ '')(objectclass=sdcperson))'');
          st1 = st\<lparr>searches := searches st @ [flt]\<rparr>
      in (case ufds_search flt of
            SearchError e \<Rightarrow> cacheAndCallback userId (Some e) None st1
          | ResultError e \<Rightarrow> cacheAndCallback userId (Some e) None st1
          | ResultEnd status users \<Rightarrow>
              (if status \<noteq> 0
               then cacheAndCallback userId (Some (LdapError ''non-zero status from LDAP search'')) None st1
               else (case users of
                       [] \<Rightarrow> cacheAndCallback userId None None st1
                     | [u] \<Rightarrow> cacheAndCallback userId None (Some u) st1
                     | _ \<Rightarrow> cacheAndCallback userId
                              (Some (InternalError ''error determining user'')) None st1))))"

text \<open>\<open>App.prototype.userFromId\<close>. \<open>uuid\<close> and \<open>login\<close> start as null; the second test is
  applied to \<open>login\<close>, as the source has it.\<close>

definition userFromId :: "(string \<Rightarrow> search_result) \<Rightarrow> string \<Rightarrow> ustate
    \<Rightarrow> user option outcome \<times> ustate" where
  "userFromId ufds_search userId st =
     (if userId = [] then (CbErr (InternalError []), st)
      else (case userCache st userId of
              Some cached \<Rightarrow>
                (case c_err cached of
                   Some e \<Rightarrow> (CbErr e, st)
                 | None \<Rightarrow> (CbOk (c_user cached), st))
            | None \<Rightarrow>
                (let uuid = None; login = JNull
                 in if UUID_RE_test userId
                    then searchUser ufds_search userId (Some userId) login st
                    else if VALID_LOGIN_CHARS_test (jsToString login)
                    then searchUser ufds_search userId uuid (JString userId) st
                    else (CbErr (InvalidArgumentError ''user id is not a valid UUID or login''), st))))"

subsection \<open>processEvent\<close>

record monitor =
  mon_user :: string
  mon_name :: string
  mon_contacts :: "string list"

record contact =
  ct_notificationType :: string
  ct_address :: "string option"

text \<open>A notification plugin: \<open>notify(probeName, address, message, callback)\<close> answers with
  an error or none. The registry keeps the plugins in the order of its keys.\<close>

record plugin =
  pl_acceptsMedium :: "string \<Rightarrow> bool"
  pl_notify :: "string \<Rightarrow> string \<Rightarrow> string \<Rightarrow> err option"

text \<open>What the app reaches from \<open>processEvent\<close>: \<open>Monitor.get\<close> and \<open>Contact.get\<close> (other
  modules of the master, taken as given) and the plugin registry.\<close>

record app_env =
  Monitor_get :: "string \<Rightarrow> string \<Rightarrow> err + monitor"
  Contact_get :: "string \<Rightarrow> string \<Rightarrow> err + contact"
  notificationPlugins :: "(string \<times> plugin) list"

text \<open>One call of a plugin's \<open>notify\<close>: the plugin's name, the probe's name, the address
  and the message. The app's state is the list of the calls made so far.\<close>

record notification =
  n_plugin :: string
  n_probeName :: string
  n_address :: string
  n_message :: string

record app_state =
  notified :: "notification list"

definition alarmConfig :: "string \<Rightarrow> string \<Rightarrow> app_state \<Rightarrow> err option \<times> app_state" where
  "alarmConfig userId msg st = (None, st)"

text \<open>\<open>notifyContact\<close> reads \<open>event.probe.name\<close> once it has found the plugin.\<close>

definition notifyContact :: "app_env \<Rightarrow> string \<Rightarrow> monitor \<Rightarrow> contact \<Rightarrow> event \<Rightarrow> app_state
    \<Rightarrow> err called \<times> app_state" where
  "notifyContact A userUuid mon c event st =
     (case map_of (notificationPlugins A) (ct_notificationType c) of
        None \<Rightarrow> (Called (Some (Error ''notification plugin not found'')), st)
      | Some pl \<Rightarrow>
          (case ev_probe event of
             None \<Rightarrow> (Threw (TypeError ''Cannot read property name of undefined''), st)
           | Some probe \<Rightarrow>
               (Called (pl_notify pl (pr_name probe) (the (ct_address c)) (ev_data event)),
                st\<lparr>notified := notified st @
                      [\<lparr>n_plugin = ct_notificationType c, n_probeName = pr_name probe,
                        n_address = the (ct_address c), n_message = ev_data event\<rparr>]\<rparr>)))"

text \<open>\<open>getAndNotifyContact\<close> always ends with \<open>cb()\<close>: its failures are logged only.\<close>

definition getAndNotifyContact :: "app_env \<Rightarrow> string \<Rightarrow> monitor \<Rightarrow> event \<Rightarrow> string \<Rightarrow> app_state
    \<Rightarrow> err called \<times> app_state" where
  "getAndNotifyContact A userUuid mon event contactUrn st =
     (case Contact_get A userUuid contactUrn of
        Inl e \<Rightarrow> (Called None, st)
      | Inr c \<Rightarrow>
          (if \<not> truthyStr (ct_address c)
           then (Called None, snd (alarmConfig (mon_user mon) ''XXX'' st))
           else (case notifyContact A userUuid mon c event st of
                   (Threw ex, st') \<Rightarrow> (Threw ex, st')
                 | (Called e, st') \<Rightarrow> (Called None, st'))))"

text \<open>\<open>App.prototype.processEvent\<close>: the monitor of the event's probe, then every contact of
  the monitor. Nothing else is consulted. Its first statement reads \<open>event.probe.user\<close>,
  which throws a TypeError for an event without \<open>probe\<close>. Otherwise the result is the error
  passed to the callback, if any.\<close>

definition processEvent :: "app_env \<Rightarrow> event \<Rightarrow> app_state \<Rightarrow> err called \<times> app_state" where
  "processEvent A event st =
     (case ev_probe event of
        None \<Rightarrow> (Threw (TypeError ''Cannot read property user of undefined''), st)
      | Some probe \<Rightarrow>
          (let userUuid = pr_user probe;
               monitorName = pr_monitor probe
           in (case Monitor_get A userUuid monitorName of
                 Inl e \<Rightarrow> (Called (Some e), st)
               | Inr mon \<Rightarrow>
                   (case asyncForEach (mon_contacts mon)
                           (getAndNotifyContact A userUuid mon event) (\<lambda>e s. s) st of
                      Finished st' \<Rightarrow> (Called None, st')
                    | Escaped ex st' \<Rightarrow> (Threw ex, st')))))"

section \<open>Probes (master/lib/probes.js)\<close>

subsection \<open>Data\<close>

text \<open>A probe type of amon-plugins, as the probe model uses it: two flags and
  \<open>validateConfig\<close>, which answers with the message of the error it throws, if any.\<close>

record probe_type =
  pt_runLocally :: bool
  pt_runInVmHost :: bool
  pt_validateConfig :: "string \<Rightarrow> string option"

text \<open>An error of the VM API client and the reply of \<open>getVm\<close>: the error, if any, and
  whether a vm came with it.\<close>

record vm_err =
  ve_httpCode :: nat
  ve_code :: string

text \<open>What the probe model reaches through the app and its modules: the registry of probe
  types, \<open>app.config.adminUuid\<close>, \<open>ProbeGroup.get\<close> (its error, if any),
  \<open>Contact.parseUrn\<close> (the error it throws, if any), whether \<open>JSON.parse\<close> accepts a
  text, the uuid that \<open>uuid()\<close> draws, and the three lookups of the authorization:
  \<open>app.serverExists\<close>, \<open>app.isOperator\<close> and \<open>app.vmapiClient.getVm\<close> (by uuid and, when
  given, owner).\<close>

record probe_env =
  plugins :: "string \<rightharpoonup> probe_type"
  adminUuid :: string
  ProbeGroup_get :: "string \<Rightarrow> string \<Rightarrow> err option"
  Contact_parseUrn :: "string \<Rightarrow> err option"
  JSON_parses :: "string \<Rightarrow> bool"
  newUuid :: string
  serverExists :: "string option \<Rightarrow> err + bool"
  isOperator :: "string \<Rightarrow> err + bool"
  getVm :: "string option \<Rightarrow> string option \<Rightarrow> vm_err option \<times> bool"

text \<open>The data of a request to create or put a probe. \<open>config\<close> is an object, kept as its
  JSON text.\<close>

record probe_data =
  pd_user :: "string option"
  pd_type :: "string option"
  pd_agent :: "string option"
  pd_machine :: "string option"
  pd_skipauthz :: "bool option"
  pd_name :: "string option"
  pd_contacts :: "string list option"
  pd_config :: "string option"
  pd_group :: "string option"
  pd_disabled :: "bool option"

text \<open>The raw data of a probe, as the directory holds it.\<close>

record probe_raw =
  raw_dn :: "string option"
  raw_user :: string
  raw_uuid :: string
  raw_type :: "string option"
  raw_agent :: "string option"
  raw_machine :: "string option"
  raw_disabled :: "jsall option"
  raw_objectclass :: string
  raw_name :: "string option"
  raw_contact :: "string list option"
  raw_config :: "string option"
  raw_group :: "string option"
  raw_runInVmHost :: bool

record probe =
  p_user :: string
  p_uuid :: string
  p_dn :: string
  p_raw :: probe_raw
  p_disabled :: bool
  p_skipauthz :: bool

definition Probe_objectclass :: string where
  "Probe_objectclass = ''amonprobe''"

definition Probe_dn :: "string \<Rightarrow> string \<Rightarrow> string" where
  "Probe_dn usr uuid = ''amonprobe='' @ uuid @ '', uuid='' @ usr @ '', ou=users, o=smartdc''"

subsection \<open>Validation and creation\<close>

fun firstError :: "('a \<Rightarrow> err option) \<Rightarrow> 'a list \<Rightarrow> err option" where
  "firstError f [] = None"
| "firstError f (x # xs) = (case f x of Some e \<Rightarrow> Some e | None \<Rightarrow> firstError f xs)"

text \<open>The first part of \<open>Probe.validate\<close>: for a \<open>runLocally\<close> type, \<open>agent\<close> and
  \<open>machine\<close> imply each other.\<close>

definition inferAgentMachine :: "probe_type \<Rightarrow> probe_raw \<Rightarrow> err + probe_raw" where
  "inferAgentMachine ProbeType raw =
     (if pt_runLocally ProbeType
      then (if \<not> truthyStr (raw_agent raw) \<and> \<not> truthyStr (raw_machine raw)
            then Inl (MissingParameterError ''one of agent or machine fields is required'')
            else if \<not> truthyStr (raw_agent raw) then Inr (raw\<lparr>raw_agent := raw_machine raw\<rparr>)
            else if \<not> truthyStr (raw_machine raw) then Inr (raw\<lparr>raw_machine := raw_agent raw\<rparr>)
            else if raw_agent raw \<noteq> raw_machine raw
            then Inl (InvalidArgumentError ''invalid agent and machine: they must be the same'')
            else Inr raw)
      else Inr raw)"

definition validateConfigText :: "probe_env \<Rightarrow> probe_type \<Rightarrow> string \<Rightarrow> err option" where
  "validateConfigText A ProbeType config =
     (if \<not> JSON_parses A config then Some (InvalidArgumentError ''probe config is invalid'')
      else (case pt_validateConfig ProbeType config of
              Some msg \<Rightarrow> Some (InvalidArgumentError (''probe config is invalid: '' @ msg))
            | None \<Rightarrow> None))"

definition Probe_validate :: "probe_env \<Rightarrow> probe_raw \<Rightarrow> err + probe_raw" where
  "Probe_validate A raw0 =
     (case (case raw_type raw0 of None \<Rightarrow> None | Some t \<Rightarrow> plugins A t) of
        None \<Rightarrow> Inl (InvalidArgumentError ''probe type is invalid'')
      | Some ProbeType \<Rightarrow>
          (case inferAgentMachine ProbeType raw0 of
             Inl e \<Rightarrow> Inl e
           | Inr raw \<Rightarrow>
               if \<not> truthyStr (raw_type raw)
               then Inl (MissingParameterError ''type is a required parameter for a probe'')
               else if \<not> UUID_RE_test (jsToString (case raw_agent raw of
                                                      None \<Rightarrow> JUndefined | Some a \<Rightarrow> JString a))
               then Inl (InvalidArgumentError ''invalid probe agent UUID'')
               else if truthyStr (raw_machine raw) \<and> \<not> UUID_RE_test (the (raw_machine raw))
               then Inl (InvalidArgumentError ''invalid probe machine UUID'')
               else if truthyStr (raw_group raw) \<and> \<not> UUID_RE_test (the (raw_group raw))
               then Inl (InvalidArgumentError ''invalid probe group UUID'')
               else if truthyStr (raw_name raw) \<and> length (the (raw_name raw)) > 512
               then Inl (InvalidArgumentError ''probe name is too long (max 512 characters)'')
               else (case firstError (Contact_parseUrn A)
                            (case raw_contact raw of None \<Rightarrow> [] | Some cs \<Rightarrow> cs) of
                       Some e \<Rightarrow> Inl e
                     | None \<Rightarrow>
                         (case (if truthyStr (raw_config raw)
                                then validateConfigText A ProbeType (the (raw_config raw))
                                else None) of
                            Some e \<Rightarrow> Inl e
                          | None \<Rightarrow>
                              Inr (if pt_runInVmHost ProbeType
                                   then raw\<lparr>raw_runInVmHost := True\<rparr> else raw)))))"

text \<open>The constructor \<open>Probe(app, raw)\<close>; \<open>Inl\<close> is what it throws. A probe that
  \<open>Probe.create\<close> did not make has no \<open>_skipauthz\<close>, which is falsy.\<close>

definition Probe :: "probe_env \<Rightarrow> probe_raw \<Rightarrow> err + probe" where
  "Probe A raw =
     (if raw_objectclass raw \<noteq> Probe_objectclass
      then Inl (AssertionError ''invalid probe data: objectclass'')
      else if truthyStr (raw_dn raw) \<and> the (raw_dn raw) \<noteq> Probe_dn (raw_user raw) (raw_uuid raw)
      then Inl (AssertionError ''invalid probe data: dn does not match the calculated dn'')
      else (case Probe_validate A (raw\<lparr>raw_dn := None\<rparr>) of
              Inl e \<Rightarrow> Inl e
            | Inr r \<Rightarrow>
                (case boolFromString (raw_disabled r) False of
                   Inl e \<Rightarrow> Inl e
                 | Inr d \<Rightarrow>
                     Inr \<lparr> p_user = raw_user raw, p_uuid = raw_uuid raw,
                           p_dn = Probe_dn (raw_user raw) (raw_uuid raw),
                           p_raw = r, p_disabled = d, p_skipauthz = False \<rparr>)))"

text \<open>The assertions at the head of \<open>Probe.create\<close>, in the source's order: the
  AssertionError they call back with, if any.\<close>

definition createAssertions :: "probe_data \<Rightarrow> err option" where
  "createAssertions data =
     (if pd_user data = None then Some (AssertionError ''data.user (string) is required'')
      else if \<not> UUID_RE_test (the (pd_user data))
      then Some (AssertionError ''invalid probe data: user is not a valid UUID'')
      else if pd_type data = None then Some (AssertionError ''data.type (string) is required'')
      else if truthyStr (pd_agent data) \<and> \<not> UUID_RE_test (the (pd_agent data))
      then Some (AssertionError ''invalid probe data: agent is not a valid UUID'')
      else if truthyStr (pd_machine data) \<and> \<not> UUID_RE_test (the (pd_machine data))
      then Some (AssertionError ''invalid probe data: machine is not a valid UUID'')
      else if truthyStr (pd_name data) \<and> \<not> length (the (pd_name data)) < 512
      then Some (AssertionError ''probe name is too long (max 512 characters)'')
      else if truthyStr (pd_group data) \<and> \<not> UUID_RE_test (the (pd_group data))
      then Some (AssertionError ''invalid probe data: group is not a valid UUID'')
      else None)"

definition createRaw :: "probe_env \<Rightarrow> probe_data \<Rightarrow> probe_raw" where
  "createRaw A data =
     \<lparr> raw_dn = None, raw_user = the (pd_user data), raw_uuid = newUuid A,
       raw_type = pd_type data, raw_agent = pd_agent data,
       raw_machine = (if truthyStr (pd_machine data) then pd_machine data else None),
       raw_disabled = Some (JBool (pd_disabled data = Some True)),
       raw_objectclass = Probe_objectclass,
       raw_name = (if truthyStr (pd_name data) then pd_name data else None),
       raw_contact = pd_contacts data, raw_config = pd_config data,
       raw_group = (if truthyStr (pd_group data) then pd_group data else None),
       raw_runInVmHost = False \<rparr>"

definition Probe_create :: "probe_env \<Rightarrow> probe_data \<Rightarrow> probe outcome" where
  "Probe_create A data =
     (case createAssertions data of
        Some aErr \<Rightarrow> CbErr aErr
      | None \<Rightarrow>
          (case (if \<not> truthyStr (pd_group data) then None
                 else ProbeGroup_get A (the (pd_user data)) (the (pd_group data))) of
             Some gErr \<Rightarrow> CbErr gErr
           | None \<Rightarrow>
               (case Probe A (createRaw A data) of
                  Inl cErr \<Rightarrow> CbErr cErr
                | Inr probe \<Rightarrow>
                    CbOk (probe\<lparr>p_skipauthz :=
                            (if pd_skipauthz data = Some True
                             then the (pd_user data) = adminUuid A else False)\<rparr>))))"

subsection \<open>Authorization\<close>

text \<open>What an authorization does: \<open>callback()\<close>, \<open>callback(err)\<close>, or an exception.\<close>

datatype authz = Authorized | Refused err | AuthzThrows err

definition isRunInVmHostOrErr :: "probe_env \<Rightarrow> probe \<Rightarrow> string option outcome" where
  "isRunInVmHostOrErr A self =
     (case (case raw_type (p_raw self) of None \<Rightarrow> None | Some t \<Rightarrow> plugins A t) of
        None \<Rightarrow> Throws (TypeError ''Cannot read property runInVmHost of undefined'')
      | Some pt \<Rightarrow> if pt_runInVmHost pt then CbOk None else CbOk (Some ''not runInVmHost''))"

definition isExistingVmOrErr :: "probe_env \<Rightarrow> probe \<Rightarrow> string option" where
  "isExistingVmOrErr A self =
     (case getVm A (raw_machine (p_raw self)) None of
        (e, vm) \<Rightarrow> if vm then None else Some ''no such machine'')"

definition userIsOperatorOrErr :: "probe_env \<Rightarrow> probe \<Rightarrow> string option" where
  "userIsOperatorOrErr A self =
     (case isOperator A (p_user self) of
        Inl opErr \<Rightarrow> Some ''err determining if operator''
      | Inr isOp \<Rightarrow> if isOp then None else Some ''not operator'')"

text \<open>\<open>async.series(conditions3, ...)\<close>: the three conditions in order, up to the first
  that fails; the result is \<open>not3\<close>.\<close>

definition conditions3 :: "probe_env \<Rightarrow> probe \<Rightarrow> string option outcome" where
  "conditions3 A self =
     (case isRunInVmHostOrErr A self of
        CbOk None \<Rightarrow>
          (case isExistingVmOrErr A self of
             None \<Rightarrow> CbOk (userIsOperatorOrErr A self)
           | Some e \<Rightarrow> CbOk (Some e))
      | other \<Rightarrow> other)"

definition authorizeWrite :: "probe_env \<Rightarrow> probe \<Rightarrow> authz" where
  "authorizeWrite A self =
     (let machineUuid = raw_agent (p_raw self)
      in if p_skipauthz self then Authorized
         else (case serverExists A machineUuid of
                 Inl physErr \<Rightarrow> Refused (InternalError ''Internal error authorizing probe put.'')
               | Inr exists \<Rightarrow>
                   if exists
                   then (case isOperator A (p_user self) of
                           Inl opErr \<Rightarrow> Refused (InternalError ''Internal error authorizing probe put.'')
                         | Inr isOp \<Rightarrow>
                             if \<not> isOp
                             then Refused (InvalidArgumentError
                                    ''Must be operator put a probe on a physical machine'')
                             else Authorized)
                   else (case getVm A machineUuid (Some (p_user self)) of
                           (Some vmErr, vm) \<Rightarrow>
                             if ve_httpCode vmErr = 404
                             then (case conditions3 A self of
                                     CbOk None \<Rightarrow> Authorized
                                   | CbOk (Some not3) \<Rightarrow>
                                       Refused (InvalidArgumentError
                                         ''Invalid agent: machine does not exist or is not owned by user'')
                                   | CbErr e \<Rightarrow> AuthzThrows e
                                   | Throws e \<Rightarrow> AuthzThrows e)
                             else Refused (InternalError ''Internal error authorizing probe put.'')
                         | (None, vm) \<Rightarrow> Authorized)))"

definition authorizeDelete :: "probe_env \<Rightarrow> probe \<Rightarrow> authz" where
  "authorizeDelete A self = AuthzThrows (Error ''XXX authorizeDelete NYI'')"

section \<open>The statements of the specification\<close>

subsection \<open>Maintenance windows and events\<close>

text \<open>A window has at most one scope.\<close>

definition oneScope :: "maintenance \<Rightarrow> bool" where
  "oneScope m =
     ((if m_all m then 1 else 0) + (if m_probes m = None then 0 else 1)
      + (if m_probeGroups m = None then 0 else 1)
      + (if m_machines m = None then 0 else (1::nat)) \<le> 1)"










text \<open>The events endpoint for a \<open>processEvent\<close> that never throws: it reports every outcome
  through its callback. Then every event is processed, in order, whatever the others did,
  and the failures are the errors among the results.\<close>

definition reporting :: "('ev \<Rightarrow> 's \<Rightarrow> err option \<times> 's) \<Rightarrow> 'ev \<Rightarrow> 's \<Rightarrow> err called \<times> 's" where
  "reporting q e a = (case q e a of (r, a') \<Rightarrow> (Called r, a'))"

fun processAll :: "('ev \<Rightarrow> 's \<Rightarrow> err option \<times> 's) \<Rightarrow> 'ev list \<Rightarrow> 's \<Rightarrow> err option list \<times> 's" where
  "processAll q [] a = ([], a)"
| "processAll q (e # es) a =
     (case q e a of
        (r, a1) \<Rightarrow> (case processAll q es a1 of (rs, a2) \<Rightarrow> (r # rs, a2)))"

definition failures :: "err option list \<Rightarrow> err list" where
  "failures rs = List.map_filter (\<lambda>r. r) rs"

definition bodyEvents :: "'ev body \<Rightarrow> 'ev list" where
  "bodyEvents body = (case body of Array es \<Rightarrow> es | Single e \<Rightarrow> [e])"

subsection \<open>Probe authorization as the specification words it\<close>

text \<open>A machine is a VM owned by a user when the VM lookup scoped to that owner answers
  without an error; a VM exists when the lookup by uuid alone answers with a vm.\<close>

definition vmOwnedBy :: "probe_env \<Rightarrow> string option \<Rightarrow> string \<Rightarrow> bool" where
  "vmOwnedBy A uuid owner = (fst (getVm A uuid (Some owner)) = None)"

definition vmExists :: "probe_env \<Rightarrow> string option \<Rightarrow> bool" where
  "vmExists A uuid = snd (getVm A uuid None)"

definition typeRunsInVmHost :: "probe_env \<Rightarrow> probe \<Rightarrow> bool" where
  "typeRunsInVmHost A self =
     (case raw_type (p_raw self) of
        None \<Rightarrow> False
      | Some t \<Rightarrow> (case plugins A t of None \<Rightarrow> False | Some pt \<Rightarrow> pt_runInVmHost pt))"

text \<open>The decision tree of the specification; its rule for a VM owned by the actor looks at
  the probe's \<open>machine\<close>.\<close>

definition authorizeWrite_claimed :: "probe_env \<Rightarrow> probe \<Rightarrow> authz" where
  "authorizeWrite_claimed A self =
     (if p_skipauthz self then Authorized
      else if serverExists A (raw_agent (p_raw self)) = Inr True
      then (if isOperator A (p_user self) = Inr True then Authorized
            else Refused (InvalidArgumentError
                   ''Must be operator put a probe on a physical machine''))
      else if vmOwnedBy A (raw_machine (p_raw self)) (p_user self) then Authorized
      else if typeRunsInVmHost A self \<and> vmExists A (raw_machine (p_raw self))
              \<and> isOperator A (p_user self) = Inr True
      then Authorized
      else Refused (InvalidArgumentError
             ''Invalid agent: machine does not exist or is not owned by user''))"

text \<open>The specification's rule for a delete, by an actor: the owner or an operator.\<close>

definition authorizeDelete_claimed :: "probe_env \<Rightarrow> string \<Rightarrow> probe \<Rightarrow> authz" where
  "authorizeDelete_claimed A actor self =
     (if actor = p_user self \<or> isOperator A actor = Inr True then Authorized
      else Refused (InvalidArgumentError ''not authorized to delete the probe''))"

subsection \<open>Concrete inputs\<close>

definition exUser :: string where
  "exUser = ''7b23ae63-37c9-420e-bb88-8d4bf5e30455''"

definition exAgent :: string where
  "exAgent = ''11111111-2222-4333-8444-555555555555''"

definition exMachine :: string where
  "exMachine = ''aaaaaaaa-bbbb-4ccc-8ddd-eeeeeeeeeeee''"

definition exProbeUuid :: string where
  "exProbeUuid = ''3ab1336e-5453-45f9-be10-8686ba70e419''"

definition exForeign :: string where
  "exForeign = ''0f0f0f0f-1e1e-4d2d-8c3c-4b4b4b4b4b4b''"

definition exEnv :: env where
  "exEnv = \<lparr> env_now = 1000000, env_dateParse = (\<lambda>s. None),
             env_handleMaintenanceEnd = (\<lambda>m. None), env_assertRedisObject = (\<lambda>d. None) \<rparr>"

definition emptyRedis :: redis where
  "emptyRedis = \<lparr> r_down = None, maintenanceIds = Map.empty, maintenancesOf = (\<lambda>u. []),
                   maintenanceHash = Map.empty, maintenancesByEnd = [] \<rparr>"

text \<open>The request of the specification's scenario: \<open>all = true\<close>, from now, for one hour.\<close>

definition exOptions :: maint_options where
  "exOptions = \<lparr> o_app = True, o_userUuid = Some exUser, o_start = Some (TStr ''now''),
                  o_end = Some (TStr ''1h''), o_notes = None, o_all = Some (JBool True),
                  o_probes = None, o_probeGroups = None, o_machines = None \<rparr>"

definition exWindow :: maintenance where
  "exWindow = \<lparr> m_v = 1, m_user = exUser, m_id = 1, m_start = 1000000, m_end = 4600000,
                 m_notes = None, m_all = True, m_probes = None, m_probeGroups = None,
                 m_machines = None \<rparr>"

text \<open>The store once that window has been created.\<close>

definition exStore :: redis where
  "exStore = snd (createMaintenance exEnv exOptions emptyRedis)"

definition exEvent :: event where
  "exEvent = \<lparr> ev_user = Some exUser, ev_time = Some 2000000, ev_probeUuid = Some exProbeUuid,
                ev_machine = Some exMachine,
                ev_probe = Some \<lparr> pr_user = exUser, pr_monitor = ''whistle'',
                                  pr_name = ''whistlelog'' \<rparr>,
                ev_data = ''{}'' \<rparr>"




text \<open>An app whose monitors have the one contact \<open>email\<close>, which resolves to an address,
  and whose email plugin accepts every notification.\<close>

definition exApp :: app_env where
  "exApp = \<lparr> Monitor_get = (\<lambda>u n. Inr \<lparr> mon_user = u, mon_name = n, mon_contacts = [''email''] \<rparr>),
             Contact_get = (\<lambda>u urn. Inr \<lparr> ct_notificationType = ''email'',
                                             ct_address = Some ''ops@example.com'' \<rparr>),
             notificationPlugins =
               [(''email'', \<lparr> pl_acceptsMedium = (\<lambda>m. True), pl_notify = (\<lambda>n a m. None) \<rparr>)] \<rparr>"

text \<open>A directory with no users, and a resolver that has cached nothing.\<close>

definition exDirectory :: "string \<Rightarrow> search_result" where
  "exDirectory flt = ResultEnd 0 []"

definition emptyUstate :: ustate where
  "emptyUstate = \<lparr> userCache = Map.empty, searches = [] \<rparr>"

text \<open>A master with the probe type \<open>machine-up\<close> (run in the VM's host), where no server
  is known, nobody is an operator, the VM \<open>exMachine\<close> exists and is owned by \<open>exUser\<close>,
  and the VM \<open>exForeign\<close> exists and is owned by somebody else.\<close>

definition exProbeEnv :: probe_env where
  "exProbeEnv =
     \<lparr> plugins = [''machine-up'' \<mapsto> \<lparr> pt_runLocally = False, pt_runInVmHost = True,
                                      pt_validateConfig = (\<lambda>c. None) \<rparr>],
       adminUuid = ''930896af-bf8c-48d4-885c-6573a94b1853'',
       ProbeGroup_get = (\<lambda>u g. None),
       Contact_parseUrn = (\<lambda>c. None),
       JSON_parses = (\<lambda>t. True),
       newUuid = exProbeUuid,
       serverExists = (\<lambda>uuid. Inr False),
       isOperator = (\<lambda>u. Inr False),
       getVm = (\<lambda>uuid owner.
                  if uuid = Some exMachine \<and> (owner = None \<or> owner = Some exUser)
                  then (None, True)
                  else if uuid = Some exForeign \<and> owner = None then (None, True)
                  else (Some \<lparr> ve_httpCode = 404, ve_code = ''ResourceNotFound'' \<rparr>, False)) \<rparr>"

definition exProbeData :: probe_data where
  "exProbeData = \<lparr> pd_user = Some exUser, pd_type = Some ''machine-up'',
                    pd_agent = Some exAgent, pd_machine = Some exMachine,
                    pd_skipauthz = None, pd_name = None, pd_contacts = None,
                    pd_config = None, pd_group = None, pd_disabled = None \<rparr>"

text \<open>The probe that \<open>Probe.create\<close> makes of it.\<close>

definition exProbe :: probe where
  "exProbe =
     \<lparr> p_user = exUser, p_uuid = exProbeUuid, p_dn = Probe_dn exUser exProbeUuid,
       p_raw = (createRaw exProbeEnv exProbeData)\<lparr>raw_runInVmHost := True\<rparr>,
       p_disabled = False, p_skipauthz = False \<rparr>"

text \<open>The probe made of the same data with the owner's VM as agent and the foreign VM as
  machine.\<close>

definition exProbe2 :: probe where
  "exProbe2 = exProbe\<lparr>p_raw := (p_raw exProbe)\<lparr>raw_agent := Some exMachine,
                                                raw_machine := Some exForeign\<rparr>\<rparr>"

section \<open>Properties\<close>


subsection \<open>The notes of a maintenance window\<close>

lemma checkOptions_notes_long:
  "o_notes options = Some n \<Longrightarrow> 255 < length n \<Longrightarrow> \<exists>msg. checkOptions options = Some (TypeError msg)"
  by (auto simp: checkOptions_def MAX_NOTES_LENGTH_def)

text \<open>
  Claim C10. \<open>createMaintenance\<close> rejects every request whose notes are longer than 255
  characters: it calls back with a TypeError and leaves the store as it was, and the create
  endpoint answers with an invalid-argument error. Notes of at most 255 characters pass the
  check: the checks of the options decide as they do for the same request without notes.
\<close>

theorem createMaintenance_notes_limit:
  "(255 < length n \<longrightarrow>
      (\<exists>msg. createMaintenance E (options\<lparr>o_notes := Some n\<rparr>) st = (CbErr (TypeError msg), st)) \<and>
      (\<exists>msg. apiCreateMaintenanceWindow E (options\<lparr>o_notes := Some n\<rparr>) userUuid st
                = (NextErr (InvalidArgumentError msg), st)))
   \<and> (length n \<le> 255 \<longrightarrow>
        checkOptions (options\<lparr>o_notes := Some n\<rparr>) = checkOptions (options\<lparr>o_notes := None\<rparr>))"
proof (intro conjI impI)
  assume long: "255 < length n"
  obtain msg where m: "checkOptions (options\<lparr>o_notes := Some n\<rparr>) = Some (TypeError msg)"
    using checkOptions_notes_long[of "options\<lparr>o_notes := Some n\<rparr>" n] long by auto
  show "\<exists>msg. createMaintenance E (options\<lparr>o_notes := Some n\<rparr>) st = (CbErr (TypeError msg), st)"
    using m by (simp add: createMaintenance_def)
  obtain msg' where m': "checkOptions (options\<lparr>o_notes := Some n, o_userUuid := Some userUuid,
                            o_app := True\<rparr>) = Some (TypeError msg')"
    using checkOptions_notes_long[of "options\<lparr>o_notes := Some n, o_userUuid := Some userUuid,
                            o_app := True\<rparr>" n] long by auto
  show "\<exists>msg. apiCreateMaintenanceWindow E (options\<lparr>o_notes := Some n\<rparr>) userUuid st
                = (NextErr (InvalidArgumentError msg), st)"
    using m' by (simp add: apiCreateMaintenanceWindow_def createMaintenance_def)
next
  assume "length n \<le> 255"
  then show "checkOptions (options\<lparr>o_notes := Some n\<rparr>) = checkOptions (options\<lparr>o_notes := None\<rparr>)"
    by (simp add: checkOptions_def MAX_NOTES_LENGTH_def)
qed

theorem createMaintenance_notes_limit_witness:
  "createMaintenance exEnv (exOptions\<lparr>o_notes := Some (replicate 256 CHR ''x'')\<rparr>) emptyRedis
     = (CbErr (TypeError ''options.notes max length is 255''), emptyRedis)
   \<and> checkOptions (exOptions\<lparr>o_notes := Some (replicate 255 CHR ''x'')\<rparr>) = None"
proof -
  have a: "255 < length (replicate 256 CHR ''x'')" by simp
  have b: "length (replicate 255 CHR ''x'') \<le> 255" by simp
  have u: "UUID_RE_test exUser" "exUser \<noteq> []" by code_simp+
  have c: "checkOptions (exOptions\<lparr>o_notes := None\<rparr>) = None"
    using u by (simp add: checkOptions_def exOptions_def numScopes_def)
  have d: "checkOptions (exOptions\<lparr>o_notes := Some (replicate 256 CHR ''x'')\<rparr>)
             = Some (TypeError ''options.notes max length is 255'')"
    using u by (simp add: checkOptions_def exOptions_def MAX_NOTES_LENGTH_def)
  from createMaintenance_notes_limit[of "replicate 256 CHR ''x''" exEnv exOptions emptyRedis exUser]
       createMaintenance_notes_limit[of "replicate 255 CHR ''x''" exEnv exOptions emptyRedis exUser]
  show ?thesis using a b c d by (simp add: createMaintenance_def)
qed


subsection \<open>Which window an event falls in\<close>

lemma boolFromString_truthy: "boolFromString a False = Inr True \<Longrightarrow> truthyAll a"
  by (cases "(a, False)" rule: boolFromString.cases) (auto split: if_splits)

lemma Maintenance_oneScope: "Maintenance d = Inr m \<Longrightarrow> oneScope m"
  apply (cases d)
   apply (simp add: Maintenance_def)
  apply (auto simp: Maintenance_def oneScope_def numScopes_def split: if_splits sum.splits dest: boolFromString_truthy)
  done

lemma Maintenance_fields: "Maintenance (Some d) = Inr m \<Longrightarrow> m_id m = the (d_id d) \<and> m_user m = the (d_user d) \<and> 0 < m_id m \<and> 0 < m_end m"
  by (auto simp: Maintenance_def isPositiveInteger_def split: if_splits sum.splits option.splits)


lemma deleteMaintenance_frame:
  "deleteMaintenance E r st = (e, st') \<Longrightarrow>
     r_down st' = r_down st \<and> maintenanceIds st' = maintenanceIds st"
  by (auto simp: deleteMaintenance_def del_def zrem_def srem_def Let_def split: option.splits maint_ref.splits if_splits)

lemma deleteMaintenance_up:
  "r_down st = None \<Longrightarrow> deleteMaintenance E (FakeMaint u i) st = (e, st') \<Longrightarrow> e = None"
  by (auto simp: deleteMaintenance_def Let_def)

lemma Maintenance_get_frame:
  "Maintenance_get E u i st = (r, st') \<Longrightarrow>
     r_down st' = r_down st \<and> maintenanceIds st' = maintenanceIds st"
  by (auto simp: Maintenance_get_def Let_def split: if_splits option.splits sum.splits prod.splits dest: deleteMaintenance_frame)

lemma Maintenance_get_up:
  "r_down st = None \<Longrightarrow> u \<noteq> [] \<Longrightarrow> truthyId i \<Longrightarrow> \<exists>r st'. Maintenance_get E u i st = (CbOk r, st')"
  by (auto simp: Maintenance_get_def Let_def split: if_splits option.splits sum.splits prod.splits dest: deleteMaintenance_up)

lemma Maintenance_get_oneScope:
  "Maintenance_get E u i st = (CbOk (Some m), st') \<Longrightarrow> oneScope m"
  by (auto simp: Maintenance_get_def Let_def split: if_splits option.splits sum.splits prod.splits dest: Maintenance_oneScope)

lemma mapGet_frame:
  "mapGet E u ids st = (r, st') \<Longrightarrow> r_down st' = r_down st \<and> maintenanceIds st' = maintenanceIds st"
proof (induction ids arbitrary: st r st')
  case Nil
  then show ?case by simp
next
  case (Cons i ids)
  obtain r1 st1 where g: "Maintenance_get E u (IdStr i) st = (r1, st1)" by force
  obtain r2 st2 where m: "mapGet E u ids st1 = (r2, st2)" by force
  from Maintenance_get_frame[OF g] Cons.IH[OF m] Cons.prems g m show ?case
    by (cases r1; cases r2) auto
qed
















subsection \<open>Ids of maintenance windows\<close>

lemma reqGet_absent:
  assumes "r_down st = None" "userUuid \<noteq> []" "0 < i" "maintenanceHash st (userUuid, i) = None"
  shows "\<exists>st'. reqGetMaintenanceWindow E userUuid (Some i) st =
           (Reply (NextErr (if i \<le> currId st userUuid
                            then GoneError ''maint window was previously deleted''
                            else ResourceNotFoundError ''maint window not found'')), st')"
proof -
  have M: "Maintenance None = Inl (TypeError ''data (object) is required'')"
    by (simp add: Maintenance_def)
  have "\<exists>st'. Maintenance_get E userUuid (IdNum i) st = (CbOk None, st')"
  proof (cases "env_assertRedisObject E None")
    case None
    then show ?thesis using assms M
      by (simp add: Maintenance_get_def Let_def deleteMaintenance_def)
  next
    case (Some rErr)
    then show ?thesis using assms
      by (simp add: Maintenance_get_def Let_def)
  qed
  then obtain st' where g: "Maintenance_get E userUuid (IdNum i) st = (CbOk None, st')" by blast
  have f: "r_down st' = None" "maintenanceIds st' = maintenanceIds st"
    using Maintenance_get_frame[OF g] assms(1) by auto
  show ?thesis using g f assms(3)
    by (auto simp: reqGetMaintenanceWindow_def isPositiveInteger_def currId_def)
qed

lemma absent_maintenance_reply:
  assumes "r_down st = None" "userUuid \<noteq> []" "0 < i" "maintenanceHash st (userUuid, i) = None"
  shows "fst (GetMaintenanceWindow E userUuid (Some i) st) =
           (if i \<le> currId st userUuid
            then NextErr (GoneError ''maint window was previously deleted'')
            else NextErr (ResourceNotFoundError ''maint window not found''))
       \<and> fst (DeleteMaintenanceWindow E userUuid (Some i) st) =
           (if i \<le> currId st userUuid
            then NextErr (GoneError ''maint window was previously deleted'')
            else NextErr (ResourceNotFoundError ''maint window not found''))"
proof -
  obtain st' where "reqGetMaintenanceWindow E userUuid (Some i) st =
           (Reply (NextErr (if i \<le> currId st userUuid
                            then GoneError ''maint window was previously deleted''
                            else ResourceNotFoundError ''maint window not found'')), st')"
    using reqGet_absent[OF assms] by blast
  then show ?thesis
    by (simp add: GetMaintenanceWindow_def DeleteMaintenanceWindow_def)
qed

lemma createData_sel [simp]:
  "d_id (createData options start e i) = Some i"
  "d_user (createData options start e i) = o_userUuid options"
  by (simp_all add: createData_def)

lemma createMaintenance_cases:
  assumes "checkOptions options = None" "r_down st = None"
  shows "\<exists>start e.
           (dateFromStart E (the (o_start options)) = Inr start \<and>
            dateFromEnd E (the (o_end options)) = Inr e \<and>
            createMaintenance E options st =
              (let (i, st1) = hincrby_maintenanceIds (the (o_userUuid options)) st
               in (case Maintenance (Some (createData options start e i)) of
                     Inl invalidErr \<Rightarrow> (CbErr invalidErr, st1)
                   | Inr m \<Rightarrow> (CbOk m, hmset (m_user m, m_id m) (serializeDb m)
                                 (zadd (m_end m) (m_user m, m_id m)
                                    (sadd (the (o_userUuid options)) (m_id m) st1))))))
         \<or> (\<exists>e. createMaintenance E options st = (Throws e, st))"
  using assms
  by (cases "dateFromStart E (the (o_start options))"; cases "dateFromEnd E (the (o_end options))")
     (simp_all add: createMaintenance_def)

lemma checkOptions_user:
  "checkOptions options = None \<Longrightarrow> \<exists>u. o_userUuid options = Some u \<and> u \<noteq> []"
  by (cases "o_userUuid options") (auto simp: checkOptions_def split: if_splits)

lemma createMaintenance_pre:
  assumes "createMaintenance E options st = (CbOk m, st1)"
  shows "checkOptions options = None \<and> r_down st = None"
  using assms
  by (cases "checkOptions options"; cases "dateFromStart E (the (o_start options))";
      cases "dateFromEnd E (the (o_end options))"; cases "r_down st")
     (simp_all add: createMaintenance_def)

lemma createMaintenance_ok:
  assumes "createMaintenance E options st = (CbOk m, st1)"
  shows "r_down st1 = None \<and> currId st1 (m_user m) = m_id m \<and> 0 < m_id m \<and> m_user m \<noteq> []
         \<and> m_id m = currId st (m_user m) + 1 \<and> o_userUuid options = Some (m_user m)
         \<and> maintenanceIds st1 = (maintenanceIds st)(m_user m \<mapsto> m_id m)"
proof -
  have pre: "checkOptions options = None" "r_down st = None"
    using createMaintenance_pre[OF assms] by auto
  obtain u where u: "o_userUuid options = Some u" "u \<noteq> []"
    using checkOptions_user[OF pre(1)] by blast
  let ?u = "the (o_userUuid options)"
  let ?i = "currId st ?u + 1"
  let ?st0 = "st\<lparr>maintenanceIds := (maintenanceIds st)(?u \<mapsto> ?i)\<rparr>"
  have h: "hincrby_maintenanceIds ?u st = (?i, ?st0)"
    by (simp add: hincrby_maintenanceIds_def currId_def Let_def)
  have "\<not> (\<exists>e. createMaintenance E options st = (Throws e, st))"
    using assms by simp
  with createMaintenance_cases[OF pre, of E]
  obtain start e where
    "createMaintenance E options st = (let (i, st1) = hincrby_maintenanceIds ?u st
               in (case Maintenance (Some (createData options start e i)) of
                     Inl invalidErr \<Rightarrow> (CbErr invalidErr, st1)
                   | Inr m \<Rightarrow> (CbOk m, hmset (m_user m, m_id m) (serializeDb m)
                                 (zadd (m_end m) (m_user m, m_id m)
                                    (sadd ?u (m_id m) st1)))))"
    by blast
  then have c: "(CbOk m, st1) =
       (case Maintenance (Some (createData options start e ?i)) of
                     Inl invalidErr \<Rightarrow> (CbErr invalidErr, ?st0)
                   | Inr m \<Rightarrow> (CbOk m, hmset (m_user m, m_id m) (serializeDb m)
                                 (zadd (m_end m) (m_user m, m_id m)
                                    (sadd ?u (m_id m) ?st0))))"
    using assms h by simp
  have M: "Maintenance (Some (createData options start e ?i)) = Inr m"
    and st1: "st1 = hmset (m_user m, m_id m) (serializeDb m)
                                 (zadd (m_end m) (m_user m, m_id m) (sadd ?u (m_id m) ?st0))"
    using c by (cases "Maintenance (Some (createData options start e ?i))"; simp)+
  have f: "m_id m = ?i" "m_user m = u" "0 < m_id m"
    using Maintenance_fields[OF M] u by auto
  show ?thesis using f u pre(2)
    by (simp add: st1 hmset_def zadd_def sadd_def currId_def)
qed

lemma createMaintenance_invalid:
  assumes "checkOptions options = None" "r_down st = None"
    "createMaintenance E options st = (CbErr e, st1)"
  shows "st1 = st\<lparr>maintenanceIds := (maintenanceIds st)
                  (the (o_userUuid options) \<mapsto> currId st (the (o_userUuid options)) + 1)\<rparr>"
proof -
  let ?u = "the (o_userUuid options)"
  let ?i = "currId st ?u + 1"
  let ?st0 = "st\<lparr>maintenanceIds := (maintenanceIds st)(?u \<mapsto> ?i)\<rparr>"
  have h: "hincrby_maintenanceIds ?u st = (?i, ?st0)"
    by (simp add: hincrby_maintenanceIds_def currId_def Let_def)
  have "\<not> (\<exists>e. createMaintenance E options st = (Throws e, st))"
    using assms by simp
  with createMaintenance_cases[OF assms(1,2), of E]
  obtain start en where
    "createMaintenance E options st = (let (i, st1) = hincrby_maintenanceIds ?u st
               in (case Maintenance (Some (createData options start en i)) of
                     Inl invalidErr \<Rightarrow> (CbErr invalidErr, st1)
                   | Inr m \<Rightarrow> (CbOk m, hmset (m_user m, m_id m) (serializeDb m)
                                 (zadd (m_end m) (m_user m, m_id m)
                                    (sadd ?u (m_id m) st1)))))"
    by blast
  then have c: "(CbErr e, st1) =
       (case Maintenance (Some (createData options start en ?i)) of
                     Inl invalidErr \<Rightarrow> (CbErr invalidErr, ?st0)
                   | Inr m \<Rightarrow> (CbOk m, hmset (m_user m, m_id m) (serializeDb m)
                                 (zadd (m_end m) (m_user m, m_id m)
                                    (sadd ?u (m_id m) ?st0))))"
    using assms h by simp
  show ?thesis
    using c by (cases "Maintenance (Some (createData options start en ?i))"; simp)
qed


lemma createMaintenance_stored:
  assumes "createMaintenance E options st = (CbOk m, st1)"
  shows "maintenanceHash st1 (m_user m, m_id m)
           = Some ((serializeDb m)\<lparr>d_all := map_option redisString (d_all (serializeDb m))\<rparr>)"
proof -
  have pre: "checkOptions options = None" "r_down st = None"
    using createMaintenance_pre[OF assms] by auto
  let ?u = "the (o_userUuid options)"
  have "\<not> (\<exists>e. createMaintenance E options st = (Throws e, st))"
    using assms by simp
  with createMaintenance_cases[OF pre, of E]
  obtain start e where
    "createMaintenance E options st = (let (i, st1) = hincrby_maintenanceIds ?u st
               in (case Maintenance (Some (createData options start e i)) of
                     Inl invalidErr \<Rightarrow> (CbErr invalidErr, st1)
                   | Inr m \<Rightarrow> (CbOk m, hmset (m_user m, m_id m) (serializeDb m)
                                 (zadd (m_end m) (m_user m, m_id m)
                                    (sadd ?u (m_id m) st1)))))"
    by blast
  then obtain i st0 where c: "(CbOk m, st1) =
       (case Maintenance (Some (createData options start e i)) of
                     Inl invalidErr \<Rightarrow> (CbErr invalidErr, st0)
                   | Inr m \<Rightarrow> (CbOk m, hmset (m_user m, m_id m) (serializeDb m)
                                 (zadd (m_end m) (m_user m, m_id m)
                                    (sadd ?u (m_id m) st0))))"
    using assms by (cases "hincrby_maintenanceIds ?u st") simp
  have "st1 = hmset (m_user m, m_id m) (serializeDb m)
                                 (zadd (m_end m) (m_user m, m_id m) (sadd ?u (m_id m) st0))"
    using c by (cases "Maintenance (Some (createData options start e i))"; simp)
  then show ?thesis by (simp add: hmset_def)
qed

lemma serializeDb_fields:
  "d_id ((serializeDb m)\<lparr>d_all := a\<rparr>) = Some (m_id m)"
  "d_user ((serializeDb m)\<lparr>d_all := a\<rparr>) = Some (m_user m)"
  by (simp_all add: serializeDb_def serializePublic_def)

lemma reqGet_no_send:
  "reqGetMaintenanceWindow E u i st = (Reply r, st') \<Longrightarrow> r \<noteq> Send c b"
  by (auto simp: reqGetMaintenanceWindow_def split: if_splits prod.splits outcome.splits option.splits)

lemma deleted_then_gone:
  assumes create: "createMaintenance E options st = (CbOk m, st1)"
    and del: "DeleteMaintenanceWindow E (m_user m) (Some (m_id m)) st1 = (Send 204 None, st2)"
  shows "fst (GetMaintenanceWindow E (m_user m) (Some (m_id m)) st2)
           = NextErr (GoneError ''maint window was previously deleted'')"
proof -
  let ?u = "m_user m" and ?i = "m_id m"
  have ok: "r_down st1 = None" "currId st1 ?u = ?i" "0 < ?i" "?u \<noteq> []"
    using createMaintenance_ok[OF create] by auto
  let ?d = "(serializeDb m)\<lparr>d_all := map_option redisString (d_all (serializeDb m))\<rparr>"
  have h: "maintenanceHash st1 (?u, ?i) = Some ?d"
    by (rule createMaintenance_stored[OF create])
  from del obtain m' st1' where
    rq: "reqGetMaintenanceWindow E ?u (Some ?i) st1 = (Next m', st1')"
    and ad: "apiDeleteMaintenanceWindow E m' st1' = (Send 204 None, st2)"
    by (cases "reqGetMaintenanceWindow E ?u (Some ?i) st1")
       (auto simp: DeleteMaintenanceWindow_def split: step.splits dest: reqGet_no_send)
  have g: "Maintenance (Some ?d) = Inr m' \<and> st1' = st1"
    using rq ok h
    by (auto simp: reqGetMaintenanceWindow_def Maintenance_get_def isPositiveInteger_def Let_def
          split: if_splits option.splits sum.splits prod.splits outcome.splits)
  have f: "m_id m' = ?i" "m_user m' = ?u"
    using Maintenance_fields[of ?d m'] g by (auto simp: serializeDb_fields)
  have st2: "st2 = del (?u, ?i) (zrem (?u, ?i) (srem ?u ?i st1))"
    using ad g f ok(1)
    by (auto simp: apiDeleteMaintenanceWindow_def deleteMaintenance_def Let_def
          split: if_splits option.splits prod.splits)
  have a: "r_down st2 = None" "maintenanceHash st2 (?u, ?i) = None" "currId st2 ?u = ?i"
    using ok by (simp_all add: st2 del_def zrem_def srem_def currId_def)
  show ?thesis
    using absent_maintenance_reply[OF a(1) ok(4) ok(3) a(2), of E] a(3) by simp
qed

text \<open>
  Claim C4. For a GET or a DELETE of \<open>/pub/:user/maintenances/:id\<close> with no window
  \<open>(user, id)\<close> in the store, the answer is the Gone error (410) if and only if \<open>id\<close> is at
  most the user's counter in \<open>maintenanceIds\<close>, and the ResourceNotFound error (404)
  otherwise. In particular, once a window has been created and then deleted, a GET of its id
  answers Gone. The id is a maintenance id, a positive integer, and the store can be reached.
\<close>

theorem maintenance_gone_or_not_found:
  "(r_down st = None \<and> userUuid \<noteq> [] \<and> 0 < i \<and> maintenanceHash st (userUuid, i) = None \<longrightarrow>
      fst (GetMaintenanceWindow E userUuid (Some i) st) =
        (if i \<le> currId st userUuid
         then NextErr (GoneError ''maint window was previously deleted'')
         else NextErr (ResourceNotFoundError ''maint window not found''))
      \<and> fst (DeleteMaintenanceWindow E userUuid (Some i) st) =
        (if i \<le> currId st userUuid
         then NextErr (GoneError ''maint window was previously deleted'')
         else NextErr (ResourceNotFoundError ''maint window not found'')))
   \<and> (createMaintenance E options st0 = (CbOk m, st1) \<and>
      DeleteMaintenanceWindow E (m_user m) (Some (m_id m)) st1 = (Send 204 None, st2) \<longrightarrow>
        fst (GetMaintenanceWindow E (m_user m) (Some (m_id m)) st2)
          = NextErr (GoneError ''maint window was previously deleted''))"
  using absent_maintenance_reply[of st userUuid i E] deleted_then_gone[of E options st0 m st1 st2]
  by blast

theorem maintenance_gone_or_not_found_witness:
  "fst (apiCreateMaintenanceWindow exEnv exOptions exUser emptyRedis)
     = Send 200 (Some (serializePublic exWindow))
   \<and> fst (DeleteMaintenanceWindow exEnv exUser (Some 1) exStore) = Send 204 None
   \<and> fst (GetMaintenanceWindow exEnv exUser (Some 1)
            (snd (DeleteMaintenanceWindow exEnv exUser (Some 1) exStore)))
       = NextErr (GoneError ''maint window was previously deleted'')
   \<and> fst (GetMaintenanceWindow exEnv exUser (Some 2) exStore)
       = NextErr (ResourceNotFoundError ''maint window not found'')"
proof -
  let ?st2 = "snd (DeleteMaintenanceWindow exEnv exUser (Some 1) exStore)"
  have p: "fst (apiCreateMaintenanceWindow exEnv exOptions exUser emptyRedis)
             = Send 200 (Some (serializePublic exWindow))" by code_simp
  have c: "fst (createMaintenance exEnv exOptions emptyRedis) = CbOk exWindow" by code_simp
  then have c': "createMaintenance exEnv exOptions emptyRedis = (CbOk exWindow, exStore)"
    by (simp add: exStore_def prod_eq_iff)
  have d: "fst (DeleteMaintenanceWindow exEnv exUser (Some 1) exStore) = Send 204 None" by code_simp
  then have d': "DeleteMaintenanceWindow exEnv (m_user exWindow) (Some (m_id exWindow)) exStore
                   = (Send 204 None, ?st2)"
    by (simp add: exWindow_def prod_eq_iff)
  have up: "r_down exStore = None" "exUser \<noteq> []" "(0::int) < 2"
    "maintenanceHash exStore (exUser, 2) = None" "currId exStore exUser = 1"
    by code_simp+
  from maintenance_gone_or_not_found[of exStore exUser 2 exEnv exOptions emptyRedis exWindow exStore ?st2]
  show ?thesis using p c' d d' up by (simp add: exWindow_def)
qed

text \<open>
  Claim C9. When \<open>createMaintenance\<close> has passed the checks of its options and reached the
  store, and then calls back with an error (the constructor refused the window, as for a
  start that is not a positive timestamp), the user's counter in \<open>maintenanceIds\<close> stays
  incremented and nothing else in the store has changed: the id is not given back. A later
  read of that id answers Gone, as for an id issued before, and the next window created for
  the user gets the id after it. The counter is not negative and no window is stored under
  an id beyond it.
\<close>

theorem createMaintenance_error_keeps_id:
  assumes "checkOptions options = None" "r_down st = None"
    and "createMaintenance E options st = (CbErr e, st')"
    and "u = the (o_userUuid options)"
    and "maintenanceHash st (u, currId st u + 1) = None"
    and "0 \<le> currId st u"
  shows "st' = st\<lparr>maintenanceIds := (maintenanceIds st)(u \<mapsto> currId st u + 1)\<rparr>
       \<and> currId st' u = currId st u + 1
       \<and> fst (GetMaintenanceWindow E u (Some (currId st u + 1)) st')
            = NextErr (GoneError ''maint window was previously deleted'')
       \<and> (\<forall>E2 options2 m st2. o_userUuid options2 = Some u \<and>
             createMaintenance E2 options2 st' = (CbOk m, st2) \<longrightarrow> m_id m = currId st u + 2)"
proof -
  have st': "st' = st\<lparr>maintenanceIds := (maintenanceIds st)(u \<mapsto> currId st u + 1)\<rparr>"
    using createMaintenance_invalid[OF assms(1,2,3)] assms(4) by simp
  have c: "currId st' u = currId st u + 1"
    by (simp add: st' currId_def)
  obtain s where "o_userUuid options = Some s" "s \<noteq> []"
    using checkOptions_user[OF assms(1)] by blast
  then have u: "u \<noteq> []" using assms(4) by simp
  have pos: "0 < currId st u + 1" using assms(6) by simp
  have up: "r_down st' = None" "maintenanceHash st' (u, currId st u + 1) = None"
    using assms(2,5) by (simp_all add: st')
  have g: "fst (GetMaintenanceWindow E u (Some (currId st u + 1)) st')
            = NextErr (GoneError ''maint window was previously deleted'')"
    using absent_maintenance_reply[OF up(1) u pos up(2), of E] c by simp
  have n: "m_id m = currId st u + 2"
    if "o_userUuid options2 = Some u" "createMaintenance E2 options2 st' = (CbOk m, st2)"
    for E2 options2 m st2
    using createMaintenance_ok[OF that(2)] that(1) c by simp
  show ?thesis using st' c g n by blast
qed

theorem createMaintenance_error_keeps_id_witness:
  "createMaintenance exEnv (exOptions\<lparr>o_start := Some (TNum (- 5))\<rparr>) emptyRedis
     = (CbErr (TypeError ''data.start (timestamp) is required''),
        emptyRedis\<lparr>maintenanceIds := [exUser \<mapsto> 1]\<rparr>)
   \<and> fst (GetMaintenanceWindow exEnv exUser (Some 1) (emptyRedis\<lparr>maintenanceIds := [exUser \<mapsto> 1]\<rparr>))
       = NextErr (GoneError ''maint window was previously deleted'')"
proof -
  let ?o = "exOptions\<lparr>o_start := Some (TNum (- 5))\<rparr>"
  let ?st' = "snd (createMaintenance exEnv ?o emptyRedis)"
  have a: "checkOptions ?o = None" by code_simp
  have b: "r_down emptyRedis = None" by code_simp
  have c: "fst (createMaintenance exEnv ?o emptyRedis)
             = CbErr (TypeError ''data.start (timestamp) is required'')" by code_simp
  then have c': "createMaintenance exEnv ?o emptyRedis
             = (CbErr (TypeError ''data.start (timestamp) is required''), ?st')"
    by (simp add: prod_eq_iff)
  have d: "exUser = the (o_userUuid ?o)" by (simp add: exOptions_def)
  have e: "currId emptyRedis exUser = 0" by code_simp
  have f: "maintenanceHash emptyRedis (exUser, currId emptyRedis exUser + 1) = None"
    by (simp add: emptyRedis_def)
  have g: "0 \<le> currId emptyRedis exUser" using e by simp
  have h: "maintenanceIds emptyRedis = Map.empty" by (simp add: emptyRedis_def)
  from createMaintenance_error_keeps_id[OF a b c' d f g]
  show ?thesis using c' e h by simp
qed


subsection \<open>The reply of the events endpoint\<close>

text \<open>As long as \<open>processEvent\<close> answers through its callback, \<open>addEvents\<close> hands it every
  event, in order, and answers once, from the errors it collected, whatever the counters of
  \<open>asyncForEach\<close> do.\<close>

lemma validateAndProcess_reporting:
  "validateAndProcess (reporting q) e s
     = (Called None,
        s\<lparr>ae_errs := ae_errs s @ failures [fst (q e (ae_app s))], ae_app := snd (q e (ae_app s))\<rparr>)"
proof -
  obtain r a1 where p: "q e (ae_app s) = (r, a1)" by force
  show ?thesis
    using p
    by (cases r)
       (simp_all add: validateAndProcess_def reporting_def failures_def List.map_filter_simps)
qed

lemma asyncForEach_items_validateAndProcess:
  "xs \<noteq> [] \<Longrightarrow>
     asyncForEach_items (validateAndProcess (reporting q)) addEvents_done xs (int (length xs)) None s
       = Finished (addEvents_done None
                     (foldl (\<lambda>s x. snd (validateAndProcess (reporting q) x s)) s xs))"
proof (induction xs arbitrary: s)
  case Nil
  then show ?case by simp
next
  case (Cons x xs)
  obtain s1 where f: "validateAndProcess (reporting q) x s = (Called None, s1)"
    using validateAndProcess_reporting[of q x s] by simp
  show ?case
  proof (cases xs)
    case Nil
    then show ?thesis using f by simp
  next
    case (Cons y ys)
    then have ne: "xs \<noteq> []" by simp
    have "int (length (x # xs)) - 1 = int (length xs)" by simp
    moreover have "int (length xs) \<noteq> 0" using ne by simp
    ultimately show ?thesis using f Cons.IH[OF ne, of s1] by simp
  qed
qed

lemma foldl_validateAndProcess:
  "foldl (\<lambda>s x. snd (validateAndProcess (reporting q) x s)) s xs
     = s\<lparr>ae_errs := ae_errs s @ failures (fst (processAll q xs (ae_app s))),
         ae_app := snd (processAll q xs (ae_app s))\<rparr>"
proof (induction xs arbitrary: s)
  case Nil
  then show ?case by (simp add: failures_def)
next
  case (Cons x xs)
  obtain r a1 where p: "q x (ae_app s) = (r, a1)" by force
  obtain rs a2 where pa: "processAll q xs a1 = (rs, a2)" by force
  let ?s1 = "snd (validateAndProcess (reporting q) x s)"
  have s1: "?s1 = s\<lparr>ae_errs := ae_errs s @ failures [r], ae_app := a1\<rparr>"
    using p by (simp add: validateAndProcess_reporting)
  have "foldl (\<lambda>s x. snd (validateAndProcess (reporting q) x s)) s (x # xs)
          = foldl (\<lambda>s x. snd (validateAndProcess (reporting q) x s)) ?s1 xs" by simp
  also have "\<dots> = ?s1\<lparr>ae_errs := ae_errs ?s1 @ failures (fst (processAll q xs (ae_app ?s1))),
                       ae_app := snd (processAll q xs (ae_app ?s1))\<rparr>"
    by (rule Cons.IH)
  also have "\<dots> = s\<lparr>ae_errs := ae_errs s @ failures (fst (processAll q (x # xs) (ae_app s))),
                     ae_app := snd (processAll q (x # xs) (ae_app s))\<rparr>"
    using p pa by (cases r) (simp_all add: s1 failures_def List.map_filter_simps)
  finally show ?case .
qed

lemma length_processAll: "length (fst (processAll q evs a)) = length evs"
proof (induction evs arbitrary: a)
  case Nil
  then show ?case by simp
next
  case (Cons e evs)
  obtain r a1 where p: "q e a = (r, a1)" by force
  obtain rs a2 where pa: "processAll q evs a1 = (rs, a2)" by force
  show ?case using p pa Cons.IH[of a1] by simp
qed

lemma addEvents_reporting:
  "addEvents (reporting q) body a =
     (let errs = failures (fst (processAll q (bodyEvents body) a))
      in ([if errs = [] then Send 202 None
           else if length errs = 1 then NextErr (errs ! 0)
           else NextErr (MultiError errs)],
          snd (processAll q (bodyEvents body) a)))
   \<and> length (fst (processAll q (bodyEvents body) a)) = length (bodyEvents body)
   \<and> bodyEvents (Single e) = [e] \<and> bodyEvents (Array es) = es"
proof -
  let ?s0 = "\<lparr>ae_errs = [], ae_replies = [], ae_app = a\<rparr>"
  let ?evs = "bodyEvents body"
  have "asyncForEach ?evs (validateAndProcess (reporting q)) addEvents_done ?s0
          = Finished (addEvents_done None
                        (foldl (\<lambda>s x. snd (validateAndProcess (reporting q) x s)) ?s0 ?evs))"
    by (cases "?evs = []")
       (simp_all add: asyncForEach_def asyncForEach_items_validateAndProcess)
  then have "addEvents (reporting q) body a =
               (let s = addEvents_done None (?s0\<lparr>ae_errs := failures (fst (processAll q ?evs a)),
                                                  ae_app := snd (processAll q ?evs a)\<rparr>)
                in (ae_replies s, ae_app s))"
    by (simp add: addEvents_def bodyEvents_def foldl_validateAndProcess Let_def)
  then show ?thesis
    by (simp add: addEvents_done_def Let_def length_processAll bodyEvents_def)
qed

text \<open>
  Claim C5 (not met by the code). The specification, like the comments of \<open>addEvents\<close>
  (``other events in the array will still get processed'', ``Collect errors so first
  failure doesn't abort the others''), has every event of the body processed whatever its
  siblings do, and one reply: 202 Accepted, the single error, or a MultiError. That holds
  for the failures \<open>processEvent\<close> passes to its callback: two events whose monitor is not
  found give a MultiError of the two errors, and a failing event does not keep the one
  after it from being notified. It does not hold for an event that makes \<open>processEvent\<close>
  throw. An event without \<open>probe\<close> does, at \<open>event.probe.user\<close>; neither
  \<open>validateAndProcess\<close> nor \<open>asyncForEach\<close> catches the exception, so it leaves
  \<open>list.forEach\<close> and the handler: the valid event after it is never processed (no
  notification is made), and the handler answers neither 202 nor an error.
\<close>

theorem addEvents_throw_aborts_siblings:
  "addEvents (processEvent exApp) (Array [exEvent]) \<lparr>notified = []\<rparr>
     = ([Send 202 None],
        \<lparr>notified = [\<lparr>n_plugin = ''email'', n_probeName = ''whistlelog'',
                       n_address = ''ops@example.com'', n_message = ''{}''\<rparr>]\<rparr>)
   \<and> addEvents
        (processEvent (exApp\<lparr>Monitor_get := (\<lambda>u n. if n = ''gone'' then Inl (ResourceNotFoundError n)
                                                  else Monitor_get exApp u n)\<rparr>))
        (Array [exEvent\<lparr>ev_probe := Some \<lparr>pr_user = exUser, pr_monitor = ''gone'',
                                            pr_name = ''whistlelog''\<rparr>\<rparr>, exEvent])
        \<lparr>notified = []\<rparr>
     = ([NextErr (ResourceNotFoundError ''gone'')],
        \<lparr>notified = [\<lparr>n_plugin = ''email'', n_probeName = ''whistlelog'',
                       n_address = ''ops@example.com'', n_message = ''{}''\<rparr>]\<rparr>)
   \<and> processEvent exApp (exEvent\<lparr>ev_probe := None\<rparr>) \<lparr>notified = []\<rparr>
     = (Threw (TypeError ''Cannot read property user of undefined''), \<lparr>notified = []\<rparr>)
   \<and> addEvents (processEvent exApp) (Array [exEvent\<lparr>ev_probe := None\<rparr>, exEvent])
        \<lparr>notified = []\<rparr>
     = ([Uncaught (TypeError ''Cannot read property user of undefined'')], \<lparr>notified = []\<rparr>)
   \<and> addEvents (processEvent exApp) (Array [exEvent, exEvent\<lparr>ev_probe := None\<rparr>, exEvent])
        \<lparr>notified = []\<rparr>
     = ([Uncaught (TypeError ''Cannot read property user of undefined'')],
        \<lparr>notified = [\<lparr>n_plugin = ''email'', n_probeName = ''whistlelog'',
                       n_address = ''ops@example.com'', n_message = ''{}''\<rparr>]\<rparr>)"
  by code_simp


subsection \<open>Events inside a maintenance window\<close>

text \<open>
  Claim C1 (not met by the code). The specification has an event that falls in a
  maintenance window of its owner produce no notification. \<open>processEvent\<close> never asks
  \<open>isEventInMaintenance\<close>: for the event below, whose owner has a window for everything
  around the event's time, \<open>isEventInMaintenance\<close> answers with that window, and
  \<open>processEvent\<close> still calls the email plugin's \<open>notify\<close> once; \<open>POST /events\<close> with
  that event answers 202 and has made the same call.
\<close>

theorem processEvent_notifies_in_maintenance:
  "fst (isEventInMaintenance exEnv exEvent None exStore) = CbOk (Some exWindow)
   \<and> processEvent exApp exEvent \<lparr>notified = []\<rparr>
       = (Called None, \<lparr>notified = [\<lparr>n_plugin = ''email'', n_probeName = ''whistlelog'',
                               n_address = ''ops@example.com'', n_message = ''{}''\<rparr>]\<rparr>)
   \<and> addEvents (processEvent exApp) (Single exEvent) \<lparr>notified = []\<rparr>
       = ([Send 202 None],
          \<lparr>notified = [\<lparr>n_plugin = ''email'', n_probeName = ''whistlelog'',
                         n_address = ''ops@example.com'', n_message = ''{}''\<rparr>]\<rparr>)"
  by code_simp


subsection \<open>The user resolver\<close>

text \<open>
  Claim C6 (not met by the code). The specification has a user id that is neither a UUID
  nor a login refused with an invalid-argument error, without a lookup. \<open>userFromId\<close>
  applies the login test to \<open>login\<close>, which is still null there and reads as the four
  letters \<open>null\<close>, a valid login; so no id is refused. The id \<open>1*\<close> is neither a UUID nor a
  login, and the resolver searches the directory for it, as it does for the login \<open>bob\<close>.
\<close>

theorem userFromId_searches_invalid_login:
  "\<not> UUID_RE_test ''1*'' \<and> \<not> VALID_LOGIN_CHARS_test ''1*''
   \<and> fst (userFromId exDirectory ''1*'' emptyUstate) = CbOk None
   \<and> searches (snd (userFromId exDirectory ''1*'' emptyUstate))
       = [''(&(login=1*)(objectclass=sdcperson))'']
   \<and> VALID_LOGIN_CHARS_test ''bob''
   \<and> searches (snd (userFromId exDirectory ''bob'' emptyUstate))
       = [''(&(login=bob)(objectclass=sdcperson))'']"
  by code_simp


subsection \<open>The length of a probe's name\<close>

text \<open>
  Claim C7 (not met by the code). The specification accepts a probe name of exactly 512
  characters. \<open>Probe.create\<close> asserts \<open>name.length < 512\<close>, so it refuses a name of 512
  characters with the message that the maximum is 512 characters, while \<open>Probe.validate\<close>
  accepts the same name (it refuses only a length above 512). A name of 511 characters is
  accepted and one of 513 is refused by both.
\<close>

theorem Probe_create_rejects_name_of_512:
  "Probe_create exProbeEnv (exProbeData\<lparr>pd_name := Some (replicate 512 CHR ''a'')\<rparr>)
     = CbErr (AssertionError ''probe name is too long (max 512 characters)'')
   \<and> Probe_validate exProbeEnv
        ((createRaw exProbeEnv exProbeData)\<lparr>raw_name := Some (replicate 512 CHR ''a'')\<rparr>)
     = Inr ((createRaw exProbeEnv exProbeData)\<lparr>raw_name := Some (replicate 512 CHR ''a''),
                                                raw_runInVmHost := True\<rparr>)
   \<and> Probe_create exProbeEnv (exProbeData\<lparr>pd_name := Some (replicate 511 CHR ''a'')\<rparr>)
     = CbOk (exProbe\<lparr>p_raw := (p_raw exProbe)\<lparr>raw_name := Some (replicate 511 CHR ''a'')\<rparr>\<rparr>)
   \<and> Probe_create exProbeEnv (exProbeData\<lparr>pd_name := Some (replicate 513 CHR ''a'')\<rparr>)
     = CbErr (AssertionError ''probe name is too long (max 512 characters)'')
   \<and> Probe_validate exProbeEnv
        ((createRaw exProbeEnv exProbeData)\<lparr>raw_name := Some (replicate 513 CHR ''a'')\<rparr>)
     = Inl (InvalidArgumentError ''probe name is too long (max 512 characters)'')"
  by code_simp


subsection \<open>Authorization of probe writes and deletes\<close>

lemma conditions3_known:
  assumes "raw_type (p_raw self) = Some t" "plugins A t = Some pt" "isOperator A (p_user self) = Inr op"
  shows "conditions3 A self =
           CbOk (if \<not> pt_runInVmHost pt then Some ''not runInVmHost''
                 else if \<not> vmExists A (raw_machine (p_raw self)) then Some ''no such machine''
                 else if op then None else Some ''not operator'')"
  using assms
  by (cases "getVm A (raw_machine (p_raw self)) None")
     (simp add: conditions3_def isRunInVmHostOrErr_def isExistingVmOrErr_def
        userIsOperatorOrErr_def vmExists_def)

lemma Probe_create_skipauthz:
  "Probe_create A data = CbOk p \<Longrightarrow>
     p_skipauthz p = (pd_skipauthz data = Some True \<and> pd_user data = Some (adminUuid A))"
  by (auto simp: Probe_create_def createAssertions_def split: option.splits sum.splits if_splits)

text \<open>
  Claim C2, as amended. The write of a probe is authorized by the first rule that applies:
  (0) a request to skip the authorization is honoured only when the probe's owner is the
  configured admin; (1) if the probe's agent names an existing physical server, the write is
  authorized if and only if the owner is an operator; (2) else if the probe's agent (not its
  machine) is a VM owned by the owner, the write is authorized; (3) else if the probe type is
  runInVmHost, the VM named by the probe's machine exists and the owner is an operator, the
  write is authorized; (4) otherwise the write fails with the invalid-argument error that
  the machine does not exist or is not owned by the user. This is for lookups that do not
  fail: the server and operator lookups answer, and the only error of the owner's VM lookup
  is a 404.
\<close>

theorem authorizeWrite_decision_tree:
  assumes "serverExists A (raw_agent (p_raw self)) = Inr se"
    and "isOperator A (p_user self) = Inr op"
    and "\<forall>e. fst (getVm A (raw_agent (p_raw self)) (Some (p_user self))) = Some e
            \<longrightarrow> ve_httpCode e = 404"
    and "raw_type (p_raw self) = Some t" and "plugins A t = Some pt"
  shows "authorizeWrite A self =
           (if p_skipauthz self then Authorized
            else if se
            then (if op then Authorized
                  else Refused (InvalidArgumentError
                         ''Must be operator put a probe on a physical machine''))
            else if vmOwnedBy A (raw_agent (p_raw self)) (p_user self) then Authorized
            else if typeRunsInVmHost A self \<and> vmExists A (raw_machine (p_raw self)) \<and> op
            then Authorized
            else Refused (InvalidArgumentError
                   ''Invalid agent: machine does not exist or is not owned by user''))
       \<and> (\<forall>data p. Probe_create A data = CbOk p \<longrightarrow>
             p_skipauthz p = (pd_skipauthz data = Some True \<and> pd_user data = Some (adminUuid A)))"
proof -
  obtain verr vm where g: "getVm A (raw_agent (p_raw self)) (Some (p_user self)) = (verr, vm)"
    by force
  have c: "conditions3 A self =
           CbOk (if \<not> pt_runInVmHost pt then Some ''not runInVmHost''
                 else if \<not> vmExists A (raw_machine (p_raw self)) then Some ''no such machine''
                 else if op then None else Some ''not operator'')"
    by (rule conditions3_known[OF assms(4,5,2)])
  have t: "typeRunsInVmHost A self = pt_runInVmHost pt"
    using assms(4,5) by (simp add: typeRunsInVmHost_def)
  have "authorizeWrite A self =
           (if p_skipauthz self then Authorized
            else if se
            then (if op then Authorized
                  else Refused (InvalidArgumentError
                         ''Must be operator put a probe on a physical machine''))
            else if vmOwnedBy A (raw_agent (p_raw self)) (p_user self) then Authorized
            else if typeRunsInVmHost A self \<and> vmExists A (raw_machine (p_raw self)) \<and> op
            then Authorized
            else Refused (InvalidArgumentError
                   ''Invalid agent: machine does not exist or is not owned by user''))"
  proof (cases verr)
    case None
    then show ?thesis using g assms(1,2)
      by (simp add: authorizeWrite_def vmOwnedBy_def)
  next
    case (Some e)
    then have "ve_httpCode e = 404" using assms(3) g by simp
    then show ?thesis using Some g assms(1,2) c t
      by (simp add: authorizeWrite_def vmOwnedBy_def)
  qed
  then show ?thesis using Probe_create_skipauthz by blast
qed

theorem authorizeWrite_decision_tree_witness:
  "authorizeWrite exProbeEnv exProbe
     = Refused (InvalidArgumentError ''Invalid agent: machine does not exist or is not owned by user'')
   \<and> authorizeWrite exProbeEnv (exProbe\<lparr>p_raw := (p_raw exProbe)\<lparr>raw_agent := Some exMachine\<rparr>\<rparr>)
     = Authorized
   \<and> authorizeWrite (exProbeEnv\<lparr>isOperator := (\<lambda>u. Inr True)\<rparr>) exProbe = Authorized"
proof -
  let ?p2 = "exProbe\<lparr>p_raw := (p_raw exProbe)\<lparr>raw_agent := Some exMachine\<rparr>\<rparr>"
  let ?A3 = "exProbeEnv\<lparr>isOperator := (\<lambda>u. Inr True)\<rparr>"
  have a: "serverExists exProbeEnv (raw_agent (p_raw exProbe)) = Inr False"
          "serverExists exProbeEnv (raw_agent (p_raw ?p2)) = Inr False"
          "serverExists ?A3 (raw_agent (p_raw exProbe)) = Inr False"
    by code_simp+
  have b: "isOperator exProbeEnv (p_user exProbe) = Inr False"
          "isOperator exProbeEnv (p_user ?p2) = Inr False"
          "isOperator ?A3 (p_user exProbe) = Inr True"
    by code_simp+
  have c: "\<forall>e. fst (getVm exProbeEnv (raw_agent (p_raw exProbe)) (Some (p_user exProbe))) = Some e
            \<longrightarrow> ve_httpCode e = 404"
          "\<forall>e. fst (getVm exProbeEnv (raw_agent (p_raw ?p2)) (Some (p_user ?p2))) = Some e
            \<longrightarrow> ve_httpCode e = 404"
          "\<forall>e. fst (getVm ?A3 (raw_agent (p_raw exProbe)) (Some (p_user exProbe))) = Some e
            \<longrightarrow> ve_httpCode e = 404"
    by (auto simp: exProbeEnv_def)
  have d: "raw_type (p_raw exProbe) = Some ''machine-up''" "raw_type (p_raw ?p2) = Some ''machine-up''"
    by code_simp+
  have e: "plugins exProbeEnv ''machine-up''
             = Some \<lparr> pt_runLocally = False, pt_runInVmHost = True, pt_validateConfig = (\<lambda>c. None) \<rparr>"
          "plugins ?A3 ''machine-up''
             = Some \<lparr> pt_runLocally = False, pt_runInVmHost = True, pt_validateConfig = (\<lambda>c. None) \<rparr>"
    by (simp_all add: exProbeEnv_def)
  have f: "\<not> p_skipauthz exProbe" "\<not> p_skipauthz ?p2"
          "\<not> vmOwnedBy exProbeEnv (raw_agent (p_raw exProbe)) (p_user exProbe)"
          "vmOwnedBy exProbeEnv (raw_agent (p_raw ?p2)) (p_user ?p2)"
          "\<not> vmOwnedBy ?A3 (raw_agent (p_raw exProbe)) (p_user exProbe)"
          "typeRunsInVmHost ?A3 exProbe" "vmExists ?A3 (raw_machine (p_raw exProbe))"
    by code_simp+
  show ?thesis
    using authorizeWrite_decision_tree[OF a(1) b(1) c(1) d(1) e(1)]
          authorizeWrite_decision_tree[OF a(2) b(2) c(2) d(2) e(1)]
          authorizeWrite_decision_tree[OF a(3) b(3) c(3) d(1) e(2)] f
    by simp
qed

text \<open>
  Claim C2, as the specification states it, fails: its rule (2) authorizes a write when the
  probe's \<open>machine\<close> is a VM owned by the owner, and the code looks at the probe's agent
  there. For the first probe below the machine is such a VM, the agent is neither a server
  nor a VM, and the owner is no operator: the specification's tree authorizes the write and
  the code refuses it. For the second probe the agent is the owner's VM and the machine is
  somebody else's: the specification's tree refuses the write and the code authorizes it.
\<close>

theorem authorizeWrite_claimed_counterexample:
  "Probe_create exProbeEnv exProbeData = CbOk exProbe
   \<and> serverExists exProbeEnv (raw_agent (p_raw exProbe)) = Inr False
   \<and> vmOwnedBy exProbeEnv (raw_machine (p_raw exProbe)) (p_user exProbe)
   \<and> authorizeWrite_claimed exProbeEnv exProbe = Authorized
   \<and> authorizeWrite exProbeEnv exProbe
       = Refused (InvalidArgumentError ''Invalid agent: machine does not exist or is not owned by user'')
   \<and> Probe_create exProbeEnv (exProbeData\<lparr>pd_agent := Some exMachine, pd_machine := Some exForeign\<rparr>)
       = CbOk exProbe2
   \<and> serverExists exProbeEnv (raw_agent (p_raw exProbe2)) = Inr False
   \<and> \<not> vmOwnedBy exProbeEnv (raw_machine (p_raw exProbe2)) (p_user exProbe2)
   \<and> authorizeWrite_claimed exProbeEnv exProbe2
       = Refused (InvalidArgumentError ''Invalid agent: machine does not exist or is not owned by user'')
   \<and> authorizeWrite exProbeEnv exProbe2 = Authorized"
  by code_simp

text \<open>
  Claim C8, as amended. The authorization of a probe delete is not implemented: for every
  probe and whoever asks, \<open>authorizeDelete\<close> throws the error \<open>XXX authorizeDelete NYI\<close>
  and authorizes nothing.
\<close>

theorem authorizeDelete_not_implemented:
  "authorizeDelete A self = AuthzThrows (Error ''XXX authorizeDelete NYI'')"
  by (simp add: authorizeDelete_def)

text \<open>
  Claim C8, as the specification states it, fails: a delete by the probe's owner is
  authorized by the specification's rule and is not authorized by the code.
\<close>

theorem authorizeDelete_claimed_counterexample:
  "p_user exProbe = exUser
   \<and> authorizeDelete_claimed exProbeEnv exUser exProbe = Authorized
   \<and> authorizeDelete exProbeEnv exProbe = AuthzThrows (Error ''XXX authorizeDelete NYI'')"
  by code_simp


end
